theory Spec2Isabelle
  imports Complex_Main "HOL-Library.Signed_Division"
begin

unbundle bit_operations_syntax

section \<open>Numbers, positions and the remainder operator\<close>

text \<open>
  The protocol layer of the server (\<^verbatim>\<open>playPackets.ts\<close>) works on two kinds of numbers:
  block coordinates, identifiers and timestamps, which are integers (\<^typ>\<open>int\<close>), and the
  doubles of the movement packets.

  The operator \<^verbatim>\<open>%\<close> of the source is the truncating remainder (the sign of the result is
  the sign of the dividend). On integers it is \<open>smod\<close>; on exact values it is \<open>js_rem\<close>.
\<close>

type_synonym XYZ = "int \<times> int \<times> int"

definition trunc :: "rat \<Rightarrow> int" where
  "trunc r = (if 0 \<le> r then \<lfloor>r\<rfloor> else \<lceil>r\<rceil>)"

definition js_rem :: "rat \<Rightarrow> rat \<Rightarrow> rat" where
  "js_rem a b = a - b * of_int (trunc (a / b))"

text \<open>
  A double, as a movement packet carries it and as the player stores it: a finite value
  (\<open>Num\<close>, with its exact value), an infinity or \<^verbatim>\<open>NaN\<close>. The two zeros are one value
  here; no handler divides by a value it has computed, so their sign decides nothing.
\<close>

datatype number = Num rat | PosInf | NegInf | NaN

section \<open>The world and the player, as the protocol layer sees them\<close>

text \<open>
  \<^verbatim>\<open>World\<close> and \<^verbatim>\<open>Player\<close> live in \<^verbatim>\<open>core/\<close>. The block grid is a function from
  coordinates to internal block identifiers (\<^verbatim>\<open>getBlockId\<close>), the size is \<^verbatim>\<open>getSize()\<close>.
  The players of a world (\<^verbatim>\<open>world.players\<close>, here \<open>world_players\<close>) are kept by the fields
  the packets read.
\<close>

record Entity =
  numId :: int
  username :: string
  position :: "number \<times> number \<times> number"
  yaw :: number
  pitch :: number
  isConnected :: bool

record SpawnPoint =
  sp_x :: number
  sp_y :: number
  sp_z :: number
  sp_yaw :: number
  sp_pitch :: number

record World =
  getSize :: XYZ
  getBlockId :: "int \<Rightarrow> int \<Rightarrow> int \<Rightarrow> int"
  fileName :: string
  spawnPoint :: SpawnPoint
  world_players :: "unit Entity_ext list"

record Player = Entity +
  uuid :: string
  world :: World

text \<open>
  Modelled from the spec: \<^verbatim>\<open>World.isInBounds\<close> (\<^verbatim>\<open>core/world/world.ts\<close>), the test that
  a cell lies inside the world's declared bounds \<open>width \<times> height \<times> depth\<close>.
\<close>

definition isInBounds :: "World \<Rightarrow> int \<Rightarrow> int \<Rightarrow> int \<Rightarrow> bool" where
  "isInBounds w x y z =
     (case getSize w of (sx, sy, sz) \<Rightarrow>
        0 \<le> x \<and> x < sx \<and> 0 \<le> y \<and> y < sy \<and> 0 \<le> z \<and> z < sz)"

section \<open>Clientbound packets\<close>

text \<open>
  A section of a chunk column (\<^verbatim>\<open>ChunkSection\<close>).
  Modelled from the spec: \<^verbatim>\<open>chunk/chunkSection.ts\<close>, a cube of edge 16 holding one
  block-state identifier per cell; \<^verbatim>\<open>new ChunkSection()\<close> has no cell written and
  \<^verbatim>\<open>setBlock(x, y, z, state)\<close> writes one cell.
\<close>

type_synonym ChunkSection = "XYZ \<rightharpoonup> int"

definition section_setBlock :: "ChunkSection \<Rightarrow> int \<Rightarrow> int \<Rightarrow> int \<Rightarrow> int \<Rightarrow> ChunkSection" where
  "section_setBlock s x y z v = s((x, y, z) \<mapsto> v)"

text \<open>
  The builders of the table \<^verbatim>\<open>packet\<close>, one constructor each, with the fields the builder
  writes (\<^verbatim>\<open>PacketWriter\<close>, the byte layout, is not in the sources). \<open>ChunkData\<close> is the
  packet \<^verbatim>\<open>0x1f\<close> that \<^verbatim>\<open>sendWorld\<close> builds inline: the column, its sections in the order
  they were pushed, and the size of the empty light set. The data of a world event is
  \<^verbatim>\<open>cBlockToBlockState[oldBlock]\<close>, which is \<^verbatim>\<open>undefined\<close> (\<open>None\<close>) for an unmapped block.
\<close>

datatype Packet =
    KeepAlive (keepAliveId: int)
  | SetBlock int int int int
  | WorldEvent int XYZ "int option" bool
  | AcknowledgeBlockChange int
  | Disconnect string
  | JoinGame int string int
  | Respawn string
  | UpdateViewDistance int
  | UpdateTickDistance int
  | UpdateViewPos rat rat
  | ChunkData (chunkX: int) (chunkZ: int) (sections: "ChunkSection list") (lightBits: nat)
  | PlayerListAdd int string "string option"
  | SpawnPlayer int "number \<times> number \<times> number" number number
  | Teleport int number number number number number bool
  | RotateHead int number
  | Abilities int rat rat
  | ServerInfo string string
  | PluginMessage string string
  | UpdatePlayerListTexts string string

definition packet_abilities :: "bool \<Rightarrow> bool \<Rightarrow> bool \<Rightarrow> bool \<Rightarrow> rat \<Rightarrow> rat \<Rightarrow> Packet" where
  "packet_abilities invulnerable flying canFly instaBreak flyingSpeed fov =
     (let flags = (0::int);
          flags = (if invulnerable then flags OR 1 else flags);
          flags = (if flying then flags OR 2 else flags);
          flags = (if canFly then flags OR 4 else flags);
          flags = (if instaBreak then flags OR 8 else flags)
      in Abilities flags flyingSpeed fov)"

definition viewDistance :: "World \<Rightarrow> int" where
  "viewDistance w =
     (case getSize w of (sx, sy, sz) \<Rightarrow> \<lceil>(of_int (max sx sz) :: rat) / 32 + 2\<rceil>)"

text \<open>The constants \<^verbatim>\<open>softwareName\<close> and \<^verbatim>\<open>softwareVersion\<close> of the server.\<close>

definition softwareName :: string where
  "softwareName = ''Cobblestone''"

definition softwareVersion :: string where
  "softwareVersion = ''0.0.3''"

text \<open>
  \<^verbatim>\<open>patchText\<close> turns the colour sign \<open>&\<close> into the section sign (code point \<open>0xA7\<close>).
\<close>

definition patchText :: "string \<Rightarrow> string" where
  "patchText text = map (\<lambda>c. if c = CHR ''&'' then CHR 0xA7 else c) text"

section \<open>The session\<close>

text \<open>
  What the handlers call on the player (\<^verbatim>\<open>_action_block_break\<close>, \<^verbatim>\<open>_action_block_place\<close>,
  \<^verbatim>\<open>_action_move\<close>) is code of \<^verbatim>\<open>core/player.ts\<close>; the session records every such call
  in \<open>calls\<close>, in order, and takes the effect on the player (and on the world it stands
  in) from the environment.
\<close>

datatype Action =
    BlockBreak int int int
  | BlockPlace int int int int
  | Move number number number number number
  | PlayerDisconnect

text \<open>
  The environment: the tables of \<^verbatim>\<open>translationMap.ts\<close> (not in the sources), the
  player's actions, and two functions of the language: \<open>round64\<close>, the rounding of an exact
  result to a double (IEEE 754, to nearest, an overflow giving an infinity), and
  \<^verbatim>\<open>String.toLocaleLowerCase\<close>. \<open>itemToCBlock\<close> gives the \<^verbatim>\<open>numId\<close> of the block an item
  places. What is proved below holds for every rounding.
\<close>

record Env =
  cBlockToBlockState :: "int \<rightharpoonup> int"
  barrierId :: int
  itemToCBlock :: "int \<rightharpoonup> int"
  action_block_break :: "Player \<Rightarrow> int \<Rightarrow> int \<Rightarrow> int \<Rightarrow> bool \<times> Player"
  action_block_place :: "Player \<Rightarrow> int \<Rightarrow> int \<Rightarrow> int \<Rightarrow> int \<Rightarrow> Player"
  action_move :: "Player \<Rightarrow> number \<Rightarrow> number \<Rightarrow> number \<Rightarrow> number \<Rightarrow> number \<Rightarrow> Player"
  round64 :: "rat \<Rightarrow> number"
  toLocaleLowerCase :: "string \<Rightarrow> string"

text \<open>
  The arithmetic of doubles with a positive finite literal of the source (\<open>180\<close>, \<open>360\<close>,
  \<open>256\<close>, \<open>128\<close>) as the second operand. A sum, a quotient and a product are the exact result
  rounded to a double; the remainder of two doubles is exact. An infinity stays what it
  is under \<open>+\<close>, \<open>/\<close> and \<open>*\<close> and has no remainder; \<^verbatim>\<open>NaN\<close> stays \<^verbatim>\<open>NaN\<close>.
\<close>

definition num_add :: "Env \<Rightarrow> number \<Rightarrow> rat \<Rightarrow> number" where
  "num_add E a c =
     (case a of Num x \<Rightarrow> round64 E (x + c) | PosInf \<Rightarrow> PosInf | NegInf \<Rightarrow> NegInf | NaN \<Rightarrow> NaN)"

definition num_rem :: "number \<Rightarrow> rat \<Rightarrow> number" where
  "num_rem a c =
     (case a of Num x \<Rightarrow> Num (js_rem x c) | PosInf \<Rightarrow> NaN | NegInf \<Rightarrow> NaN | NaN \<Rightarrow> NaN)"

definition num_div :: "Env \<Rightarrow> number \<Rightarrow> rat \<Rightarrow> number" where
  "num_div E a c =
     (case a of Num x \<Rightarrow> round64 E (x / c) | PosInf \<Rightarrow> PosInf | NegInf \<Rightarrow> NegInf | NaN \<Rightarrow> NaN)"

definition num_mul :: "Env \<Rightarrow> number \<Rightarrow> rat \<Rightarrow> number" where
  "num_mul E a c =
     (case a of Num x \<Rightarrow> round64 E (x * c) | PosInf \<Rightarrow> PosInf | NegInf \<Rightarrow> NegInf | NaN \<Rightarrow> NaN)"

text \<open>
  The identifier of a world in the packets, \<^verbatim>\<open>'w:' + world.fileName.toLocaleLowerCase()\<close>,
  and the builder \<^verbatim>\<open>packet.joinGame\<close>.
\<close>

definition worldIdentifier :: "Env \<Rightarrow> World \<Rightarrow> string" where
  "worldIdentifier E w = ''w:'' @ toLocaleLowerCase E (fileName w)"

definition packet_joinGame :: "Env \<Rightarrow> 'a Entity_scheme \<Rightarrow> World \<Rightarrow> Packet" where
  "packet_joinGame E p w = JoinGame (numId p) (worldIdentifier E w) (viewDistance w)"

text \<open>
  The state of one connection: the protocol handler (\<^verbatim>\<open>handler.player\<close>,
  \<^verbatim>\<open>handler.data.minePos\<close>, \<^verbatim>\<open>handler.data.mineTime\<close>, \<^verbatim>\<open>handler.inventory\<close>,
  \<^verbatim>\<open>handler.inventorySlot\<close>, \<^verbatim>\<open>handler.selfUuid\<close>), the endpoint of the connection
  handler, whether it has been given its server (\<^verbatim>\<open>conn._server\<close>), what has been sent and
  whether the transport was closed. \<^verbatim>\<open>setPlayer\<close>
  stores one and the same player in \<^verbatim>\<open>_player\<close> and in \<^verbatim>\<open>handler.player\<close>, so the field
  \<open>player\<close> stands for both. The inventory is a JavaScript array: a read of an index never
  written gives \<^verbatim>\<open>undefined\<close> (\<open>None\<close>).
\<close>

record Handler =
  conn_server :: bool
  ip :: string
  port :: int
  player :: "Player option"
  minePos :: "XYZ option"
  mineTime :: "int option"
  inventory :: "int \<rightharpoonup> int"
  inventorySlot :: int
  selfUuid :: "string option"
  sent :: "Packet list"
  connClosed :: bool
  calls :: "Action list"

definition send :: "Packet \<Rightarrow> Handler \<Rightarrow> Handler" where
  "send p h = h\<lparr>sent := sent h @ [p]\<rparr>"

definition close :: "Handler \<Rightarrow> Handler" where
  "close h = h\<lparr>connClosed := True\<rparr>"

text \<open>\<^verbatim>\<open>ModernConnectionHandler.setBlock\<close>.\<close>

definition setBlock :: "Env \<Rightarrow> int \<Rightarrow> int \<Rightarrow> int \<Rightarrow> int \<Rightarrow> Handler \<Rightarrow> Handler" where
  "setBlock E x y z block h =
     send (SetBlock x y z (case cBlockToBlockState E block of Some s \<Rightarrow> s | None \<Rightarrow> 0)) h"

text \<open>
  \<^verbatim>\<open>ModernConnectionHandler.setPlayer\<close>, with the name and the message of the day of the
  server's configuration.
\<close>

definition setPlayer :: "Env \<Rightarrow> string \<Rightarrow> string \<Rightarrow> Player \<Rightarrow> Handler \<Rightarrow> Handler" where
  "setPlayer E serverName serverMotd p h =
     (let h = h\<lparr>player := Some p\<rparr>;
          h = send (packet_joinGame E p (world p)) h;
          h = send (PluginMessage ''minecraft:brand'' (softwareName @ '' '' @ softwareVersion)) h;
          h = send (UpdatePlayerListTexts (patchText serverName) (patchText serverMotd)) h
      in h)"

section \<open>Serverbound packet handlers\<close>

text \<open>
  Each handler takes the fields it reads from the packet. \<open>now\<close> is \<^verbatim>\<open>Date.now()\<close>. A
  float of a packet (\<^verbatim>\<open>readFloat\<close>) is the double of the same value.
\<close>

text \<open>Player Action, \<^verbatim>\<open>playPackets[0x1c]\<close>.\<close>

definition playPackets_0x1c :: "Env \<Rightarrow> int \<Rightarrow> int \<Rightarrow> XYZ \<Rightarrow> Handler \<Rightarrow> Handler" where
  "playPackets_0x1c E now status pos h =
     (case pos of (px, py, pz) \<Rightarrow>
      if status = 0 then h\<lparr>minePos := Some pos, mineTime := Some now\<rparr>
      else if status = 1 then h\<lparr>minePos := None, mineTime := None\<rparr>
      else if status = 2 then
        (let h1 =
           (case player h of
              Some p \<Rightarrow>
                if isInBounds (world p) px py pz then
                  (let oldBlock = getBlockId (world p) px py pz;
                       (ok, p') = action_block_break E p px py pz;
                       h' = h\<lparr>player := Some p', calls := calls h @ [BlockBreak px py pz]\<rparr>
                   in if ok then send (WorldEvent 2001 pos (cBlockToBlockState E oldBlock) False) h'
                      else h')
                else send (SetBlock px py pz (barrierId E)) h
            | None \<Rightarrow> send (SetBlock px py pz (barrierId E)) h)
         in h1\<lparr>minePos := None, mineTime := None\<rparr>)
      else h)"

text \<open>Set Player Position, \<^verbatim>\<open>playPackets[0x13]\<close>.\<close>

definition playPackets_0x13 :: "Env \<Rightarrow> number \<Rightarrow> number \<Rightarrow> number \<Rightarrow> Handler \<Rightarrow> Handler" where
  "playPackets_0x13 E x y z h =
     (case player h of
        None \<Rightarrow> h
      | Some p \<Rightarrow>
          h\<lparr>player := Some (action_move E p x y z (yaw p) (pitch p)),
            calls := calls h @ [Move x y z (yaw p) (pitch p)]\<rparr>)"

text \<open>
  Set Player Position and Rotation, \<^verbatim>\<open>playPackets[0x14]\<close>: the yaw is
  \<^verbatim>\<open>(((f + 180) % 360) / 360) * 256\<close> and the pitch \<^verbatim>\<open>(g / 360) * 256\<close>, for the two floats
  \<open>f\<close> and \<open>g\<close> of the packet.
\<close>

definition playPackets_0x14 ::
  "Env \<Rightarrow> number \<Rightarrow> number \<Rightarrow> number \<Rightarrow> number \<Rightarrow> number \<Rightarrow> Handler \<Rightarrow> Handler" where
  "playPackets_0x14 E x y z yw pt h =
     (case player h of
        None \<Rightarrow> h
      | Some p \<Rightarrow>
          (let yaw' = num_mul E (num_div E (num_rem (num_add E yw 180) 360) 360) 256;
               pitch' = num_mul E (num_div E pt 360) 256
           in h\<lparr>player := Some (action_move E p x y z yaw' pitch'),
                calls := calls h @ [Move x y z yaw' pitch']\<rparr>))"

text \<open>Set Player Rotation, \<^verbatim>\<open>playPackets[0x15]\<close>.\<close>

definition playPackets_0x15 :: "Env \<Rightarrow> number \<Rightarrow> number \<Rightarrow> Handler \<Rightarrow> Handler" where
  "playPackets_0x15 E yw pt h =
     (case player h of
        None \<Rightarrow> h
      | Some p \<Rightarrow>
          (case position p of (x, y, z) \<Rightarrow>
           let yaw' = num_mul E (num_div E (num_rem (num_add E yw 180) 360) 360) 256;
               pitch' = num_mul E (num_div E pt 360) 256
           in h\<lparr>player := Some (action_move E p x y z yaw' pitch'),
                calls := calls h @ [Move x y z yaw' pitch']\<rparr>))"

text \<open>Set Held Item, \<^verbatim>\<open>playPackets[0x27]\<close>.\<close>

definition playPackets_0x27 :: "int \<Rightarrow> Handler \<Rightarrow> Handler" where
  "playPackets_0x27 slot h = h\<lparr>inventorySlot := slot\<rparr>"

text \<open>
  Set Creative Mode Slot, \<^verbatim>\<open>playPackets[0x2a]\<close>: the slot, the flag \<^verbatim>\<open>readBool()\<close> and the
  item id that follows it when the flag is set.
\<close>

definition playPackets_0x2a :: "int \<Rightarrow> bool \<Rightarrow> int \<Rightarrow> Handler \<Rightarrow> Handler" where
  "playPackets_0x2a slot present itemId h =
     (if slot < 50 \<and> slot \<ge> 0 then
        (if present then h\<lparr>inventory := (inventory h)(slot \<mapsto> itemId)\<rparr>
         else h\<lparr>inventory := (inventory h)(slot \<mapsto> 0)\<rparr>)
      else h)"

text \<open>
  Use Item On, \<^verbatim>\<open>playPackets[0x30]\<close>. \<^verbatim>\<open>directions[faceId]\<close> is \<^verbatim>\<open>undefined\<close> outside the
  table, and reading \<^verbatim>\<open>face[0]\<close> then throws a \<^verbatim>\<open>TypeError\<close>; the arguments of an optional
  call \<^verbatim>\<open>handler.player?.f(...)\<close> are only evaluated when there is a player. The connection
  handler of the session's player is the session itself.
\<close>

datatype error = TypeError | Thrown string

definition directions :: "XYZ list" where
  "directions = [(0, -1, 0), (0, 1, 0), (0, 0, -1), (0, 0, 1), (-1, 0, 0), (1, 0, 0)]"

definition index :: "'a list \<Rightarrow> int \<Rightarrow> 'a option" where
  "index xs i = (if 0 \<le> i \<and> i < int (length xs) then Some (xs ! nat i) else None)"

definition playPackets_0x30 :: "Env \<Rightarrow> XYZ \<Rightarrow> int \<Rightarrow> int \<Rightarrow> Handler \<Rightarrow> error + Handler" where
  "playPackets_0x30 E pos faceId sequence h =
     (case pos of (px, py, pz) \<Rightarrow>
      let item = inventory h (inventorySlot h + 36) in
      if item \<noteq> Some 0 then
        (let face = index directions faceId;
             block = (case item of None \<Rightarrow> None | Some i \<Rightarrow> itemToCBlock E i)
         in case player h of
              None \<Rightarrow> Inr (send (AcknowledgeBlockChange sequence) h)
            | Some p \<Rightarrow>
                (case face of
                   None \<Rightarrow> Inl TypeError
                 | Some (fx, fy, fz) \<Rightarrow>
                     (case block of
                        Some b \<Rightarrow>
                          Inr (send (AcknowledgeBlockChange sequence)
                            (h\<lparr>player := Some (action_block_place E p (px + fx) (py + fy) (pz + fz) b),
                               calls := calls h @ [BlockPlace (px + fx) (py + fy) (pz + fz) b]\<rparr>))
                      | None \<Rightarrow>
                          Inr (send (AcknowledgeBlockChange sequence)
                            (setBlock E (px + fx) (py + fy) (pz + fz)
                               (getBlockId (world p) (px + fx) (py + fy) (pz + fz)) h)))))
      else Inr h)"

section \<open>The periodic tick\<close>

text \<open>
  \<^verbatim>\<open>ModernConnectionHandler.tick\<close>. The guard tests \<^verbatim>\<open>minePos\<close> and \<^verbatim>\<open>mineTime\<close> for
  truthiness: a position (an array) is truthy whenever it is set, a timestamp is truthy
  when it is set and not \<open>0\<close>.
\<close>

definition tick :: "Env \<Rightarrow> int \<Rightarrow> Handler \<Rightarrow> Handler" where
  "tick E now h0 =
     (let h = (if now smod 2 = 0 then send (KeepAlive now) h0 else h0) in
      case minePos h of
        None \<Rightarrow> h
      | Some pos \<Rightarrow>
          (case mineTime h of
             None \<Rightarrow> h
           | Some t \<Rightarrow>
               if t \<noteq> 0 \<and> now - t > 200 then
                 (case pos of (px, py, pz) \<Rightarrow>
                  let h1 =
                    (case player h of
                       Some p \<Rightarrow>
                         if isInBounds (world p) px py pz then
                           (let oldBlock = getBlockId (world p) px py pz;
                                (ok, p') = action_block_break E p px py pz;
                                h' = h\<lparr>player := Some p', calls := calls h @ [BlockBreak px py pz]\<rparr>
                            in if ok then send (WorldEvent 2001 pos (cBlockToBlockState E oldBlock) False) h'
                               else h')
                         else send (SetBlock px py pz (barrierId E)) h
                     | None \<Rightarrow> send (SetBlock px py pz (barrierId E)) h)
                  in h1\<lparr>minePos := None, mineTime := None\<rparr>)
               else h))"

section \<open>Joining a world: \<^verbatim>\<open>sendWorld\<close>\<close>

text \<open>
  The three inner loops of \<^verbatim>\<open>sendWorld\<close> fill one section: \<open>x\<close>, \<open>y\<close>, \<open>z\<close> run from
  \<open>0\<close> to \<open>15\<close>, the cell \<open>(cx * 16 + x, cy * 16 + y, cz * 16 + z)\<close> of the world is
  translated when it is in bounds, and is the barrier otherwise.
\<close>

definition sendWorld_cell :: "Env \<Rightarrow> World \<Rightarrow> int \<Rightarrow> int \<Rightarrow> int \<Rightarrow> int \<Rightarrow> int \<Rightarrow> int \<Rightarrow> ChunkSection \<Rightarrow> ChunkSection" where
  "sendWorld_cell E w cx cy cz x y z section =
     (if isInBounds w (cx * 16 + x) (cy * 16 + y) (cz * 16 + z) then
        section_setBlock section x y z
          (case cBlockToBlockState E (getBlockId w (cx * 16 + x) (cy * 16 + y) (cz * 16 + z)) of
             Some s \<Rightarrow> s | None \<Rightarrow> 0)
      else section_setBlock section x y z (barrierId E))"

definition sendWorld_section :: "Env \<Rightarrow> World \<Rightarrow> int \<Rightarrow> int \<Rightarrow> int \<Rightarrow> ChunkSection" where
  "sendWorld_section E w cx cy cz =
     fold (\<lambda>x. fold (\<lambda>y. fold (\<lambda>z. sendWorld_cell E w cx cy cz x y z) [0..15]) [0..15]) [0..15]
       Map.empty"

text \<open>The loop \<^verbatim>\<open>for (let cy = -1; cy < worldSize[1] / 16; cy++)\<close>.\<close>

function sendWorld_sections :: "Env \<Rightarrow> World \<Rightarrow> int \<Rightarrow> int \<Rightarrow> int \<Rightarrow> ChunkSection list \<Rightarrow> ChunkSection list" where
  "sendWorld_sections E w cx cz cy chunkSections =
     (if (of_int cy :: rat) < of_int (fst (snd (getSize w))) / 16 then
        sendWorld_sections E w cx cz (cy + 1) (chunkSections @ [sendWorld_section E w cx cy cz])
      else chunkSections)"
  by pat_completeness auto
termination
  by (relation "measure (\<lambda>(E, w, cx, cz, cy, acc). nat (fst (snd (getSize w)) - 16 * cy))")
     (auto simp: field_simps)

declare sendWorld_sections.simps [simp del]

text \<open>The body of the loop over \<open>cz\<close>: the packet of the column \<open>(cx, cz)\<close>.\<close>

definition sendWorld_column :: "Env \<Rightarrow> World \<Rightarrow> int \<Rightarrow> int \<Rightarrow> Packet" where
  "sendWorld_column E w cx cz =
     (let chunkSections = sendWorld_sections E w cx cz (-1) []
      in ChunkData cx cz chunkSections (length chunkSections + 2))"

text \<open>The loop \<^verbatim>\<open>for (let cz = -1; cz < worldSize[2] / 16 + 1; cz++)\<close>.\<close>

function sendWorld_cz :: "Env \<Rightarrow> World \<Rightarrow> int \<Rightarrow> int \<Rightarrow> Handler \<Rightarrow> Handler" where
  "sendWorld_cz E w cx cz h =
     (if (of_int cz :: rat) < of_int (snd (snd (getSize w))) / 16 + 1 then
        sendWorld_cz E w cx (cz + 1) (send (sendWorld_column E w cx cz) h)
      else h)"
  by pat_completeness auto
termination
  by (relation "measure (\<lambda>(E, w, cx, cz, h). nat (snd (snd (getSize w)) + 16 - 16 * cz))")
     (auto simp: field_simps)

declare sendWorld_cz.simps [simp del]

text \<open>The loop \<^verbatim>\<open>for (let cx = -1; cx < worldSize[0] / 16 + 1; cx++)\<close>.\<close>

function sendWorld_cx :: "Env \<Rightarrow> World \<Rightarrow> int \<Rightarrow> Handler \<Rightarrow> Handler" where
  "sendWorld_cx E w cx h =
     (if (of_int cx :: rat) < of_int (fst (getSize w)) / 16 + 1 then
        sendWorld_cx E w (cx + 1) (sendWorld_cz E w cx (-1) h)
      else h)"
  by pat_completeness auto
termination
  by (relation "measure (\<lambda>(E, w, cx, h). nat (fst (getSize w) + 16 - 16 * cx))")
     (auto simp: field_simps)

declare sendWorld_cx.simps [simp del]

text \<open>
  \<^verbatim>\<open>sendSpawnPlayer\<close> and \<^verbatim>\<open>sendTeleport\<close>. Two players are the same object when
  their \<^verbatim>\<open>numId\<close> is the same.
\<close>

definition sendSpawnPlayer :: "unit Entity_ext \<Rightarrow> Handler \<Rightarrow> Handler" where
  "sendSpawnPlayer p h =
     (if Some (numId p) \<noteq> map_option numId (player h) then
        send (SpawnPlayer (numId p) (position p) (yaw p) (pitch p))
          (send (PlayerListAdd (numId p) (username p) None) h)
      else h)"

definition sendTeleport ::
  "Env \<Rightarrow> 'a Entity_scheme \<Rightarrow> number \<times> number \<times> number \<Rightarrow> number \<Rightarrow> number \<Rightarrow> Handler \<Rightarrow> Handler" where
  "sendTeleport E p pos yw pt h =
     (case pos of (x, y, z) \<Rightarrow>
        send (RotateHead (numId p) (num_rem (num_add E yw 128) 256))
          (send (Teleport (numId p) x y z (num_rem (num_add E yw 128) 256) pt False) h))"

text \<open>
  \<^verbatim>\<open>sendWorld\<close>. The result is the error thrown, if any, and the session afterwards. The
  pauses (\<^verbatim>\<open>await sleep\<close>) send nothing and are left out; the heightmap of a column is a
  fresh \<^verbatim>\<open>BitStorage\<close> that is never written.
\<close>

definition sendWorld :: "Env \<Rightarrow> World \<Rightarrow> Handler \<Rightarrow> (error + unit) \<times> Handler" where
  "sendWorld E w h =
     (case player h of
        None \<Rightarrow> (Inl (Thrown ''Player is not set!''), h)
      | Some p \<Rightarrow>
          (let worldSize = getSize w;
               h = send (packet_joinGame E p w) h;
               h = send (Respawn (worldIdentifier E w)) h;
               h = send (UpdateViewDistance (viewDistance w)) h;
               h = send (UpdateTickDistance (viewDistance w)) h;
               h = send (UpdateViewPos (of_int (fst worldSize) / 32) (of_int (snd (snd worldSize)) / 32)) h;
               h = sendWorld_cx E w (-1) h;
               h = fold sendSpawnPlayer (world_players w) h;
               h = send (PlayerListAdd (numId p) (username p) (selfUuid h)) h;
               h = sendTeleport E p (sp_x (spawnPoint w), sp_y (spawnPoint w), sp_z (spawnPoint w))
                     (sp_yaw (spawnPoint w)) (sp_pitch (spawnPoint w)) h;
               h = send (packet_abilities True False False True (5 / 100) (1 / 10)) h
           in (Inr (), h)))"

text \<open>
  \<^verbatim>\<open>ModernConnectionHandler.disconnect\<close>. With a connected player it hands over to
  \<^verbatim>\<open>Player.disconnect\<close> (recorded in \<open>calls\<close>) and returns; otherwise it sends the
  disconnect packet and closes the transport. The line written to the logger when a
  player is set is not part of the session.
\<close>

definition disconnect :: "string \<Rightarrow> Handler \<Rightarrow> Handler" where
  "disconnect message h =
     (case player h of
        Some p \<Rightarrow>
          if isConnected p then h\<lparr>calls := calls h @ [PlayerDisconnect]\<rparr>
          else close (send (Disconnect (patchText message)) h)
      | None \<Rightarrow> close (send (Disconnect (patchText message)) h))"

section \<open>Accepting a connection: \<^verbatim>\<open>Server.connectPlayer\<close>\<close>

text \<open>
  The server keeps the roster \<^verbatim>\<open>players\<close>, indexed by the player's uuid. What
  \<^verbatim>\<open>connectPlayer\<close> touches is the server, the connection and the logger.
\<close>

record Server =
  players :: "string \<rightharpoonup> Player"

datatype LogEntry =
    LogConnectionFrom string int
  | LogNoAuth string "string option"
  | LogLoggedWith string "string option" string

record 'a System =
  server :: "'a Server_scheme"
  conn :: Handler
  logger :: "LogEntry list"

datatype AuthData = AuthData
  (auth_uuid: "string option") (auth_username: string) (auth_service: string)
  (auth_secret: "string option") (auth_authenticated: bool)

record Overrides =
  o_uuid :: "string option"
  o_username :: "string option"
  o_service :: "string option"
  o_secret :: "string option"
  o_authenticated :: "bool option"

record PlayerInfo =
  pi_username :: string
  pi_key :: string

text \<open>
  The collaborators of \<^verbatim>\<open>connectPlayer\<close>: the outcome of \<^verbatim>\<open>authenticatePlayer\<close> (the
  identity and the decision \<^verbatim>\<open>allow\<close>), \<^verbatim>\<open>String.toLowerCase\<close>, the constructor of
  \<^verbatim>\<open>Player\<close> (uuid, username, client, service), and what follows the entry in the roster
  (\<^verbatim>\<open>player.changeWorld\<close> and the join message).
\<close>

record 'a ServerEnv =
  authenticatePlayer :: "AuthData \<Rightarrow> AuthData \<times> bool"
  toLowerCase :: "string \<Rightarrow> string"
  newPlayer :: "string \<Rightarrow> string \<Rightarrow> string \<Rightarrow> string \<Rightarrow> Player"
  joined :: "Player \<Rightarrow> 'a System \<Rightarrow> 'a System"

text \<open>
  Modelled from the spec: \<^verbatim>\<open>ConnectionHandler.sendServerInfo\<close> (not in the sources), by
  which the server replies with identity and version information.
\<close>

definition sendServerInfo :: "Handler \<Rightarrow> Handler" where
  "sendServerInfo h = send (ServerInfo softwareName softwareVersion) h"

text \<open>
  The synchronous part of \<^verbatim>\<open>connectPlayer\<close>, up to the registration of the listener. None
  of its three steps throws here, so the \<^verbatim>\<open>catch\<close> around them is never entered.
\<close>

definition connectPlayer :: "'a System \<Rightarrow> 'a System" where
  "connectPlayer sys =
     sys\<lparr>conn := (conn sys)\<lparr>conn_server := True\<rparr>,
         logger := logger sys @ [LogConnectionFrom (ip (conn sys)) (port (conn sys))]\<rparr>"

text \<open>The data handed to \<^verbatim>\<open>authenticatePlayer\<close>.\<close>

definition authRequest :: "'a ServerEnv \<Rightarrow> Overrides option \<Rightarrow> PlayerInfo \<Rightarrow> AuthData" where
  "authRequest SE overrides playerInfo =
     AuthData
       (Some (case Option.bind overrides o_uuid of Some u \<Rightarrow> u
              | None \<Rightarrow> toLowerCase SE (pi_username playerInfo)))
       (case Option.bind overrides o_username of Some u \<Rightarrow> u | None \<Rightarrow> pi_username playerInfo)
       (case Option.bind overrides o_service of Some s \<Rightarrow> s | None \<Rightarrow> ''Minecraft'')
       (Some (case Option.bind overrides o_secret of Some k \<Rightarrow> k | None \<Rightarrow> pi_key playerInfo))
       (case Option.bind overrides o_authenticated of Some a \<Rightarrow> a | None \<Rightarrow> False)"

text \<open>
  The listener of \<^verbatim>\<open>PlayerIdentification\<close> that \<^verbatim>\<open>connectPlayer\<close> registers; \<open>client\<close>
  and \<open>overrides\<close> are the optional arguments of \<^verbatim>\<open>connectPlayer\<close>.
\<close>

definition onPlayerIdentification ::
  "'a ServerEnv \<Rightarrow> string option \<Rightarrow> Overrides option \<Rightarrow> PlayerInfo \<Rightarrow> 'a System \<Rightarrow> 'a System" where
  "onPlayerIdentification SE client overrides playerInfo sys =
     (let sys = sys\<lparr>conn := sendServerInfo (conn sys)\<rparr>;
          (auth, allow) = authenticatePlayer SE (authRequest SE overrides playerInfo)
      in if allow then
           (let sys = sys\<lparr>logger := logger sys @
                  [if auth_service auth = ''Unknown''
                   then LogNoAuth (auth_username auth) (auth_uuid auth)
                   else LogLoggedWith (auth_username auth) (auth_uuid auth) (auth_service auth)]\<rparr>;
                player = newPlayer SE
                  (case auth_uuid auth of Some u \<Rightarrow> u
                   | None \<Rightarrow> ''offline-'' @ toLowerCase SE (auth_username auth))
                  (auth_username auth)
                  (case client of Some c \<Rightarrow> c | None \<Rightarrow> ''Classic'')
                  (auth_service auth);
                sys = sys\<lparr>server := (server sys)\<lparr>players := (players (server sys))(uuid player \<mapsto> player)\<rparr>\<rparr>
            in joined SE player sys)
         else sys\<lparr>conn := disconnect ''You need to log in!'' (conn sys)\<rparr>)"

text \<open>
  \<^verbatim>\<open>createDimType\<close>: the dimension announced to the client is \<open>height + 16\<close> blocks tall
  and starts at \<open>y = -16\<close>.
\<close>

definition dimension_height :: "World \<Rightarrow> int" where
  "dimension_height w = fst (snd (getSize w)) + 16"

definition dimension_min_y :: int where
  "dimension_min_y = -16"

section \<open>Example sessions\<close>

text \<open>
  A world of \<open>16 \<times> 16 \<times> 16\<close> blocks of block \<open>1\<close>, a player in it, a translation table
  that knows the blocks \<open>0\<close> and \<open>1\<close> and has \<open>7\<close> for the barrier, player actions that
  always succeed, and a session with and without that player. The rounding of the
  example leaves every value as it is: the examples below only compute values that are
  doubles (integers and quarters), which any rounding to a double leaves alone. The
  name of the example world is in lower case already.
\<close>

definition exampleWorld :: World where
  "exampleWorld = \<lparr>getSize = (16, 16, 16), getBlockId = (\<lambda>x y z. 1), fileName = ''main'',
     spawnPoint = \<lparr>sp_x = Num 8, sp_y = Num 10, sp_z = Num 8, sp_yaw = Num 0, sp_pitch = Num 0\<rparr>,
     world_players = []\<rparr>"

definition examplePlayer :: Player where
  "examplePlayer = \<lparr>numId = 1, username = ''steve'', position = (Num 8, Num 10, Num 8),
     yaw = Num 0, pitch = Num 0,
     isConnected = True, uuid = ''steve'', world = exampleWorld\<rparr>"

definition exampleEnv :: Env where
  "exampleEnv = \<lparr>cBlockToBlockState = [0 \<mapsto> 0, 1 \<mapsto> 1], barrierId = 7,
     itemToCBlock = [1 \<mapsto> 1],
     action_block_break = (\<lambda>p x y z. (True, p)),
     action_block_place = (\<lambda>p x y z b. p),
     action_move = (\<lambda>p x y z yw pt. p\<lparr>position := (x, y, z), yaw := yw, pitch := pt\<rparr>),
     round64 = Num, toLocaleLowerCase = (\<lambda>s. s)\<rparr>"

definition freshHandler :: Handler where
  "freshHandler = \<lparr>conn_server = True, ip = ''127.0.0.1'', port = 25565, player = None,
     minePos = None, mineTime = None, inventory = Map.empty, inventorySlot = 0,
     selfUuid = Some ''self'', sent = [], connClosed = False, calls = []\<rparr>"

definition exampleHandler :: Handler where
  "exampleHandler = freshHandler\<lparr>player := Some examplePlayer\<rparr>"

text \<open>An authentication that denies everybody, and a server with an empty roster.\<close>

definition denyEnv :: "unit ServerEnv" where
  "denyEnv = \<lparr>authenticatePlayer = (\<lambda>a. (a, False)), toLowerCase = (\<lambda>s. s),
     newPlayer = (\<lambda>u n c s. examplePlayer\<lparr>uuid := u, username := n\<rparr>),
     joined = (\<lambda>p sys. sys)\<rparr>"

definition exampleSystem :: "unit System" where
  "exampleSystem = \<lparr>server = \<lparr>players = Map.empty\<rparr>, conn = freshHandler\<lparr>conn_server := False\<rparr>,
     logger = []\<rparr>"

section \<open>The sections and columns that \<^verbatim>\<open>sendWorld\<close> builds\<close>

text \<open>Three nested loops of cell writes leave, in every cell they visit, the value written.\<close>

lemma fold_cells_z:
  "fold (\<lambda>z (s :: ChunkSection). s((x, y, z) \<mapsto> f z)) zs s (a, b, c) =
     (if a = x \<and> b = y \<and> c \<in> set zs then Some (f c) else s (a, b, c))"
  by (induction zs arbitrary: s rule: rev_induct) auto

lemma fold_cells_y:
  "fold (\<lambda>y. fold (\<lambda>z (s :: ChunkSection). s((x, y, z) \<mapsto> f y z)) zs) ys s (a, b, c) =
     (if a = x \<and> b \<in> set ys \<and> c \<in> set zs then Some (f b c) else s (a, b, c))"
  by (induction ys arbitrary: s rule: rev_induct) (auto simp: fold_cells_z)

lemma fold_cells_x:
  "fold (\<lambda>x. fold (\<lambda>y. fold (\<lambda>z (s :: ChunkSection). s((x, y, z) \<mapsto> f x y z)) zs) ys) xs s (a, b, c) =
     (if a \<in> set xs \<and> b \<in> set ys \<and> c \<in> set zs then Some (f a b c) else s (a, b, c))"
  by (induction xs arbitrary: s rule: rev_induct) (auto simp: fold_cells_y)

lemma sendWorld_cell_upd:
  "sendWorld_cell E w cx cy cz x y z s =
     s((x, y, z) \<mapsto>
        (if isInBounds w (cx * 16 + x) (cy * 16 + y) (cz * 16 + z)
         then (case cBlockToBlockState E (getBlockId w (cx * 16 + x) (cy * 16 + y) (cz * 16 + z)) of
                 Some s \<Rightarrow> s | None \<Rightarrow> 0)
         else barrierId E))"
  by (simp add: sendWorld_cell_def section_setBlock_def)

lemma sendWorld_section_lookup:
  "sendWorld_section E w cx cy cz (x, y, z) =
     (if x \<in> {0..15} \<and> y \<in> {0..15} \<and> z \<in> {0..15}
      then Some (if isInBounds w (cx * 16 + x) (cy * 16 + y) (cz * 16 + z)
                 then (case cBlockToBlockState E (getBlockId w (cx * 16 + x) (cy * 16 + y) (cz * 16 + z)) of
                         Some s \<Rightarrow> s | None \<Rightarrow> 0)
                 else barrierId E)
      else None)"
  unfolding sendWorld_section_def sendWorld_cell_upd
  by (simp only: fold_cells_x set_upto)

text \<open>The loop bounds \<open>c < n / 16\<close> and \<open>c < n / 16 + 1\<close>, in integers.\<close>

lemma lt_ceil: "((of_int c :: rat) < of_int n / 16) = (c \<le> \<lceil>(of_int n :: rat) / 16\<rceil> - 1)"
proof -
  have "(c \<le> \<lceil>(of_int n :: rat) / 16\<rceil> - 1) = (c < \<lceil>(of_int n :: rat) / 16\<rceil>)"
    by linarith
  then show ?thesis by (simp only: less_ceiling_iff)
qed

lemma lt_ceil1: "((of_int c :: rat) < of_int n / 16 + 1) = (c \<le> \<lceil>(of_int n :: rat) / 16\<rceil>)"
proof -
  have "((of_int c :: rat) < of_int n / 16 + 1) = ((of_int (c - 1) :: rat) < of_int n / 16)"
    by simp linarith
  also have "\<dots> = (c - 1 \<le> \<lceil>(of_int n :: rat) / 16\<rceil> - 1)" by (rule lt_ceil)
  finally show ?thesis by linarith
qed

lemma sendWorld_sections_eq:
  "sendWorld_sections E w cx cz cy acc =
     acc @ map (\<lambda>cy. sendWorld_section E w cx cy cz) [cy..\<lceil>(of_int (fst (snd (getSize w))) :: rat) / 16\<rceil> - 1]"
proof (induction E w cx cz cy acc rule: sendWorld_sections.induct)
  case (1 E w cx cz cy acc)
  let ?top = "\<lceil>(of_int (fst (snd (getSize w))) :: rat) / 16\<rceil> - 1"
  show ?case
  proof (cases "(of_int cy :: rat) < of_int (fst (snd (getSize w))) / 16")
    case True
    then have "cy \<le> ?top" by (simp only: lt_ceil)
    then have step: "[cy..?top] = cy # [cy + 1..?top]" by (simp add: upto_rec1)
    have "sendWorld_sections E w cx cz cy acc =
            sendWorld_sections E w cx cz (cy + 1) (acc @ [sendWorld_section E w cx cy cz])"
      using True by (subst sendWorld_sections.simps) (simp only: if_True)
    also have "\<dots> = (acc @ [sendWorld_section E w cx cy cz]) @
            map (\<lambda>cy. sendWorld_section E w cx cy cz) [cy + 1..?top]"
      by (rule "1.IH" [OF True])
    finally show ?thesis by (simp only: step list.map append_assoc append_Cons append_Nil)
  next
    case False
    then have "\<not> cy \<le> ?top" unfolding lt_ceil .
    then have "?top < cy" by linarith
    then have nil: "[cy..?top] = []" by (rule upto_empty)
    have "sendWorld_sections E w cx cz cy acc = acc"
      using False by (subst sendWorld_sections.simps) (simp only: if_False)
    then show ?thesis by (simp only: nil list.map append_Nil2)
  qed
qed

lemma sendWorld_cz_eq:
  "sendWorld_cz E w cx cz h =
     h\<lparr>sent := sent h @ map (sendWorld_column E w cx) [cz..\<lceil>(of_int (snd (snd (getSize w))) :: rat) / 16\<rceil>]\<rparr>"
proof (induction E w cx cz h rule: sendWorld_cz.induct)
  case (1 E w cx cz h)
  let ?top = "\<lceil>(of_int (snd (snd (getSize w))) :: rat) / 16\<rceil>"
  show ?case
  proof (cases "(of_int cz :: rat) < of_int (snd (snd (getSize w))) / 16 + 1")
    case True
    then have "cz \<le> ?top" by (simp only: lt_ceil1)
    then have step: "[cz..?top] = cz # [cz + 1..?top]" by (simp add: upto_rec1)
    let ?h1 = "send (sendWorld_column E w cx cz) h"
    have "sendWorld_cz E w cx cz h = sendWorld_cz E w cx (cz + 1) ?h1"
      using True by (subst sendWorld_cz.simps) (simp only: if_True)
    also have "\<dots> = ?h1\<lparr>sent := sent ?h1 @ map (sendWorld_column E w cx) [cz + 1..?top]\<rparr>"
      by (rule "1.IH" [OF True])
    also have "\<dots> = h\<lparr>sent := sent h @ map (sendWorld_column E w cx) (cz # [cz + 1..?top])\<rparr>"
      by (simp add: send_def)
    finally show ?thesis by (simp only: step)
  next
    case False
    then have "\<not> cz \<le> ?top" unfolding lt_ceil1 .
    then have "?top < cz" by linarith
    then have nil: "[cz..?top] = []" by (rule upto_empty)
    have stop: "sendWorld_cz E w cx cz h = h"
      using False by (subst sendWorld_cz.simps) (simp only: if_False)
    have "h\<lparr>sent := sent h @ []\<rparr> = h" by simp
    then show ?thesis unfolding stop nil list.map concat.simps by (rule sym)
  qed
qed

lemma sendWorld_cx_eq:
  "sendWorld_cx E w cx h =
     h\<lparr>sent := sent h @
        concat (map (\<lambda>cx. map (sendWorld_column E w cx) [-1..\<lceil>(of_int (snd (snd (getSize w))) :: rat) / 16\<rceil>])
                 [cx..\<lceil>(of_int (fst (getSize w)) :: rat) / 16\<rceil>])\<rparr>"
proof (induction E w cx h rule: sendWorld_cx.induct)
  case (1 E w cx h)
  let ?top = "\<lceil>(of_int (fst (getSize w)) :: rat) / 16\<rceil>"
  show ?case
  proof (cases "(of_int cx :: rat) < of_int (fst (getSize w)) / 16 + 1")
    case True
    then have "cx \<le> ?top" by (simp only: lt_ceil1)
    then have step: "[cx..?top] = cx # [cx + 1..?top]" by (simp add: upto_rec1)
    let ?cols = "\<lambda>cx. map (sendWorld_column E w cx) [-1..\<lceil>(of_int (snd (snd (getSize w))) :: rat) / 16\<rceil>]"
    let ?h1 = "sendWorld_cz E w cx (-1) h"
    have h1: "?h1 = h\<lparr>sent := sent h @ ?cols cx\<rparr>" by (rule sendWorld_cz_eq)
    have "sendWorld_cx E w cx h = sendWorld_cx E w (cx + 1) ?h1"
      using True by (subst sendWorld_cx.simps) (simp only: if_True)
    also have "\<dots> = ?h1\<lparr>sent := sent ?h1 @ concat (map ?cols [cx + 1..?top])\<rparr>"
      by (rule "1.IH" [OF True])
    also have "\<dots> = h\<lparr>sent := sent h @ concat (map ?cols (cx # [cx + 1..?top]))\<rparr>"
      by (simp add: h1)
    finally show ?thesis by (simp only: step)
  next
    case False
    then have "\<not> cx \<le> ?top" unfolding lt_ceil1 .
    then have "?top < cx" by linarith
    then have nil: "[cx..?top] = []" by (rule upto_empty)
    have stop: "sendWorld_cx E w cx h = h"
      using False by (subst sendWorld_cx.simps) (simp only: if_False)
    have "h\<lparr>sent := sent h @ []\<rparr> = h" by simp
    then show ?thesis unfolding stop nil list.map concat.simps by (rule sym)
  qed
qed

lemma sendWorld_column_fields:
  "sendWorld_column E w cx cz =
     ChunkData cx cz
       (map (\<lambda>cy. sendWorld_section E w cx cy cz) [-1..\<lceil>(of_int (fst (snd (getSize w))) :: rat) / 16\<rceil> - 1])
       (length [-1..\<lceil>(of_int (fst (snd (getSize w))) :: rat) / 16\<rceil> - 1] + 2)"
  by (simp add: sendWorld_column_def sendWorld_sections_eq Let_def)

text \<open>
  For a world whose height is a multiple of 16, the sections of a column fill the
  announced dimension exactly: from \<open>y = -16\<close> up to the top of the world.
\<close>

lemma sections_fill_dimension:
  assumes "fst (snd (getSize w)) = 16 * k" and "0 \<le> k"
  shows "int (length (sections (sendWorld_column E w cx cz))) * 16 = dimension_height w"
proof -
  have "\<lceil>(of_int (16 * k) :: rat) / 16\<rceil> = k" by simp
  with assms show ?thesis
    by (simp add: sendWorld_column_fields dimension_height_def)
qed

lemma filter_columns:
  "filter is_ChunkData (concat (map (\<lambda>cx. map (sendWorld_column E w cx) zs) xs)) =
     concat (map (\<lambda>cx. map (sendWorld_column E w cx) zs) xs)"
  by (rule filter_True) (auto simp: sendWorld_column_fields)

lemma filter_spawns:
  "filter is_ChunkData (concat (map (\<lambda>e.
      if c e then [PlayerListAdd (numId e) (username e) None, SpawnPlayer (numId e) (position e) (yaw e) (pitch e)]
      else []) es)) = []"
  by (induction es) simp_all

lemma sendSpawnPlayer_fold:
  "fold sendSpawnPlayer ps h =
     h\<lparr>sent := sent h @ concat (map (\<lambda>e.
        if Some (numId e) \<noteq> map_option numId (player h)
        then [PlayerListAdd (numId e) (username e) None, SpawnPlayer (numId e) (position e) (yaw e) (pitch e)]
        else []) ps)\<rparr>"
proof (induction ps arbitrary: h)
  case Nil
  show ?case by simp
next
  case (Cons e ps)
  let ?one = "\<lambda>h e. if Some (numId e) \<noteq> map_option numId (player h)
        then [PlayerListAdd (numId e) (username e) None, SpawnPlayer (numId e) (position e) (yaw e) (pitch e)]
        else []"
  let ?h1 = "sendSpawnPlayer e h"
  have one: "?h1 = h\<lparr>sent := sent h @ ?one h e\<rparr>"
    by (simp add: sendSpawnPlayer_def send_def)
  have "fold sendSpawnPlayer (e # ps) h = fold sendSpawnPlayer ps ?h1" by simp
  also have "\<dots> = ?h1\<lparr>sent := sent ?h1 @ concat (map (?one ?h1) ps)\<rparr>"
    by (rule Cons.IH)
  also have "\<dots> = h\<lparr>sent := sent h @ concat (map (?one h) (e # ps))\<rparr>"
    by (simp add: one)
  finally show ?case .
qed

lemma abilities_flags: "packet_abilities True False False True s f = Abilities 9 s f"
  by (simp add: packet_abilities_def)

text \<open>Everything \<^verbatim>\<open>sendWorld\<close> sends for a session with a player, in order.\<close>

lemma sendWorld_sent:
  assumes "player h = Some p"
  shows "sendWorld E w h = (Inr (),
    h\<lparr>sent := sent h
      @ [JoinGame (numId p) (worldIdentifier E w) (viewDistance w), Respawn (worldIdentifier E w),
         UpdateViewDistance (viewDistance w), UpdateTickDistance (viewDistance w),
         UpdateViewPos (of_int (fst (getSize w)) / 32) (of_int (snd (snd (getSize w))) / 32)]
      @ concat (map (\<lambda>cx. map (sendWorld_column E w cx) [-1..\<lceil>(of_int (snd (snd (getSize w))) :: rat) / 16\<rceil>])
                 [-1..\<lceil>(of_int (fst (getSize w)) :: rat) / 16\<rceil>])
      @ concat (map (\<lambda>e.
          if numId e \<noteq> numId p
          then [PlayerListAdd (numId e) (username e) None, SpawnPlayer (numId e) (position e) (yaw e) (pitch e)]
          else []) (world_players w))
      @ [PlayerListAdd (numId p) (username p) (selfUuid h),
         Teleport (numId p) (sp_x (spawnPoint w)) (sp_y (spawnPoint w)) (sp_z (spawnPoint w))
           (num_rem (num_add E (sp_yaw (spawnPoint w)) 128) 256) (sp_pitch (spawnPoint w)) False,
         RotateHead (numId p) (num_rem (num_add E (sp_yaw (spawnPoint w)) 128) 256),
         Abilities 9 (5 / 100) (1 / 10)]\<rparr>)"
  using assms
  by (simp add: sendWorld_def Let_def send_def packet_joinGame_def sendWorld_cx_eq
      sendSpawnPlayer_fold sendTeleport_def abilities_flags)

section \<open>The remainder operator and the ticks of an idle session\<close>

text \<open>
  The remainder by a positive \<open>b\<close> is the one value that differs from the dividend by a
  multiple of \<open>b\<close>, is smaller than \<open>b\<close> in magnitude and has the sign of the dividend.
\<close>

lemma js_rem_unique:
  assumes b: "0 < b" and split: "a = b * of_int k + r" and small: "\<bar>r\<bar> < b"
      and pos: "0 \<le> a \<Longrightarrow> 0 \<le> r" and neg: "a \<le> 0 \<Longrightarrow> r \<le> 0"
  shows "js_rem a b = r"
proof -
  have q: "a / b = of_int k + r / b"
    using b split by (simp add: field_simps)
  have "trunc (a / b) = k"
  proof (cases "0 \<le> a")
    case True
    then have r: "0 \<le> r" by (rule pos)
    have "0 \<le> r / b" "r / b < 1" using r small b by simp_all
    then have "\<lfloor>a / b\<rfloor> = k" unfolding q by linarith
    moreover have "0 \<le> a / b" using True b by simp
    ultimately show ?thesis by (simp add: trunc_def)
  next
    case False
    then have r: "r \<le> 0" using neg by simp
    have "r / b \<le> 0" "- 1 < r / b" using r small b by (simp_all add: field_simps)
    then have "\<lceil>a / b\<rceil> = k" unfolding q by linarith
    moreover have "\<not> 0 \<le> a / b" using False b by (simp add: field_simps)
    ultimately show ?thesis by (simp add: trunc_def)
  qed
  then show ?thesis using split by (simp add: js_rem_def)
qed

lemma js_rem_exists:
  assumes b: "0 < b"
  shows "a = b * of_int (trunc (a / b)) + js_rem a b \<and> \<bar>js_rem a b\<bar> < b
    \<and> (0 \<le> a \<longrightarrow> 0 \<le> js_rem a b) \<and> (a \<le> 0 \<longrightarrow> js_rem a b \<le> 0)"
proof -
  have ab: "a / b * b = a" "b * (a / b) = a" using b by simp_all
  show ?thesis
  proof (cases "0 \<le> a")
    case True
    then have t: "trunc (a / b) = \<lfloor>a / b\<rfloor>" using b by (simp add: trunc_def)
    have "of_int \<lfloor>a / b\<rfloor> * b \<le> a / b * b"
      using b by (intro mult_right_mono) simp_all
    then have l: "b * of_int \<lfloor>a / b\<rfloor> \<le> a" by (simp only: ab mult.commute)
    have "a / b < of_int \<lfloor>a / b\<rfloor> + 1" by linarith
    then have "a / b * b < (of_int \<lfloor>a / b\<rfloor> + 1) * b"
      using b by (intro mult_strict_right_mono)
    then have h: "a < b * of_int \<lfloor>a / b\<rfloor> + b" by (simp only: ab) (simp add: algebra_simps)
    have j: "js_rem a b = a - b * of_int \<lfloor>a / b\<rfloor>" by (simp add: js_rem_def t)
    have z: "a - b * of_int \<lfloor>a / b\<rfloor> \<le> 0" if "a \<le> 0"
    proof -
      from that True have "a = 0" by simp
      then show ?thesis by simp
    qed
    have "\<bar>a - b * of_int \<lfloor>a / b\<rfloor>\<bar> < b" using l h by linarith
    moreover have "0 \<le> a - b * of_int \<lfloor>a / b\<rfloor>" using l by linarith
    ultimately show ?thesis unfolding j t using z by auto
  next
    case False
    then have "a / b < 0" using b by (simp add: divide_neg_pos)
    then have t: "trunc (a / b) = \<lceil>a / b\<rceil>" by (simp add: trunc_def)
    have "a / b * b \<le> of_int \<lceil>a / b\<rceil> * b"
      using b by (intro mult_right_mono) simp_all
    then have h: "a \<le> b * of_int \<lceil>a / b\<rceil>" by (simp only: ab mult.commute)
    have "of_int \<lceil>a / b\<rceil> - 1 < a / b" by linarith
    then have "(of_int \<lceil>a / b\<rceil> - 1) * b < a / b * b"
      using b by (intro mult_strict_right_mono)
    then have l: "b * of_int \<lceil>a / b\<rceil> - b < a" by (simp only: ab) (simp add: algebra_simps)
    have j: "js_rem a b = a - b * of_int \<lceil>a / b\<rceil>" by (simp add: js_rem_def t)
    have "\<bar>a - b * of_int \<lceil>a / b\<rceil>\<bar> < b" using l h by linarith
    moreover have "a - b * of_int \<lceil>a / b\<rceil> \<le> 0" using h by linarith
    ultimately show ?thesis unfolding j t using False by auto
  qed
qed

lemma smod_2_examples: "(1250::int) smod 2 = 0" "(1500::int) smod 2 = 0" "(1751::int) smod 2 = 1"
  by (simp_all add: signed_modulo_int_def)

lemma tick_idle:
  "minePos h = None \<Longrightarrow>
     tick E now h = (if now smod 2 = 0 then send (KeepAlive now) h else h)"
  by (simp add: tick_def send_def Let_def)

lemma ticks_idle:
  "minePos h = None \<Longrightarrow>
     fold (tick E) ts h = h\<lparr>sent := sent h @ map KeepAlive (filter (\<lambda>t. t smod 2 = 0) ts)\<rparr>"
proof (induction ts arbitrary: h)
  case Nil
  then show ?case by simp
next
  case (Cons t ts)
  let ?h1 = "tick E t h"
  have h1: "?h1 = (if t smod 2 = 0 then send (KeepAlive t) h else h)"
    using Cons.prems by (rule tick_idle)
  then have "minePos ?h1 = None" using Cons.prems by (simp add: send_def)
  then have "fold (tick E) ts ?h1 =
      ?h1\<lparr>sent := sent ?h1 @ map KeepAlive (filter (\<lambda>t. t smod 2 = 0) ts)\<rparr>"
    by (rule Cons.IH)
  then show ?case by (simp add: h1 send_def)
qed

text \<open>
  A timestamp of \<open>0\<close> is not a timestamp for the guard of the tick: such a session is
  only sent its keep-alive.
\<close>

lemma tick_zero_timestamp:
  "mineTime h = Some 0 \<Longrightarrow>
     tick E now h = (if now smod 2 = 0 then send (KeepAlive now) h else h)"
  by (simp add: tick_def send_def Let_def split: option.splits)

text \<open>
  Finish-dig inside the world: the block-break action is called once, and the world
  event with the translated old block follows when the action succeeds.
\<close>

lemma finish_dig_in_bounds:
  assumes "player h = Some p" and "isInBounds (world p) x y z"
      and "action_block_break E p x y z = (ok, p')"
  shows "playPackets_0x1c E now 2 (x, y, z) h =
     h\<lparr>player := Some p', calls := calls h @ [BlockBreak x y z],
       sent := sent h @
         (if ok then [WorldEvent 2001 (x, y, z) (cBlockToBlockState E (getBlockId (world p) x y z)) False]
          else []),
       minePos := None, mineTime := None\<rparr>"
  using assms by (simp add: playPackets_0x1c_def send_def Let_def)

text \<open>The six entries of the direction table, by face id.\<close>

lemma directions_table:
  "map (index directions) [0, 1, 2, 3, 4, 5] =
     [Some (0, -1, 0), Some (0, 1, 0), Some (0, 0, -1), Some (0, 0, 1), Some (-1, 0, 0), Some (1, 0, 0)]"
  by (simp add: index_def directions_def)


text \<open>
  Outside the table there is no direction: with a player in the session and an item in
  hand, the handler throws.
\<close>

lemma use_item_on_bad_face:
  assumes "faceId < 0 \<or> 6 \<le> faceId" and "inventory h (inventorySlot h + 36) \<noteq> Some 0"
      and "player h = Some p"
  shows "playPackets_0x30 E pos faceId sequence h = Inl TypeError"
  using assms
  by (cases pos) (auto simp: playPackets_0x30_def index_def directions_def Let_def)

text \<open>The columns of the stream, by their coordinates.\<close>

lemma column_coordinates:
  "map (\<lambda>q. (chunkX q, chunkZ q)) (concat (map (\<lambda>cx. map (sendWorld_column E w cx) zs) xs)) =
     List.product xs zs"
  by (induction xs) (simp_all add: sendWorld_column_fields o_def)

section \<open>The claims\<close>

subsection \<open>C1: the columns and sections of \<^verbatim>\<open>sendWorld\<close>\<close>

text \<open>
  The claim C1 asks for one extra all-boundary section below the world and one above it.
  In a world of height 16 the column \<open>(0, 0)\<close> has two sections only, for \<open>cy = -1\<close> and
  \<open>cy = 0\<close>: the loop over \<open>cy\<close> stops at \<open>cy < height / 16\<close>. The topmost section is
  the world's own layer and holds the translated block \<open>1\<close> at its origin, not the
  barrier \<open>7\<close>.
\<close>

theorem sendWorld_columns_counterexample:
  "sections (sendWorld_column exampleEnv exampleWorld 0 0) =
     [sendWorld_section exampleEnv exampleWorld 0 (-1) 0, sendWorld_section exampleEnv exampleWorld 0 0 0]
   \<and> last (sections (sendWorld_column exampleEnv exampleWorld 0 0)) (0, 0, 0) = Some 1
   \<and> barrierId exampleEnv = 7"
proof -
  have s: "sections (sendWorld_column exampleEnv exampleWorld 0 0) =
     map (\<lambda>cy. sendWorld_section exampleEnv exampleWorld 0 cy 0) [-1..0]"
    by (simp add: sendWorld_column_fields exampleWorld_def)
  have u: "[-1..(0::int)] = [-1, 0]" by (simp add: upto_rec1)
  have c: "sendWorld_section exampleEnv exampleWorld 0 0 0 (0, 0, 0) = Some 1"
    by (simp add: sendWorld_section_lookup isInBounds_def exampleWorld_def exampleEnv_def)
  show ?thesis by (simp add: s u c) (simp add: exampleEnv_def)
qed

text \<open>
  C1, as the code has it. For a session with a player and a world of size
  \<open>(width, height, depth)\<close>, \<^verbatim>\<open>sendWorld\<close> succeeds and the chunk-column packets it sends
  are, in order, exactly one for every column \<open>(cx, cz)\<close> with \<open>cx\<close> in
  \<open>[-1, ceil(width / 16)]\<close> and \<open>cz\<close> in \<open>[-1, ceil(depth / 16)]\<close>: their coordinates are the
  product of the two ranges, without repetition. The packet of a column
  carries its coordinates and the sections for \<open>cy = -1, ..., ceil(height / 16) - 1\<close>,
  bottom-up: one extra section below \<open>y = 0\<close> and none above the section that holds the
  top of the world. Every cell of a section is the translated block of the world when
  the cell is in bounds and the barrier otherwise; the section below \<open>y = 0\<close> is all
  barrier.
\<close>

theorem sendWorld_columns:
  assumes p: "player h = Some p" and size: "getSize w = (width, height, depth)"
  shows "fst (sendWorld E w h) = Inr ()
    \<and> filter is_ChunkData (drop (length (sent h)) (sent (snd (sendWorld E w h)))) =
        concat (map (\<lambda>cx. map (\<lambda>cz. sendWorld_column E w cx cz) [-1..\<lceil>(of_int depth :: rat) / 16\<rceil>])
                 [-1..\<lceil>(of_int width :: rat) / 16\<rceil>])
    \<and> (\<forall>cx cz. chunkX (sendWorld_column E w cx cz) = cx \<and> chunkZ (sendWorld_column E w cx cz) = cz
          \<and> sections (sendWorld_column E w cx cz) =
              map (\<lambda>cy. sendWorld_section E w cx cy cz) [-1..\<lceil>(of_int height :: rat) / 16\<rceil> - 1])
    \<and> (\<forall>cx cy cz. \<forall>x\<in>{0..15}. \<forall>y\<in>{0..15}. \<forall>z\<in>{0..15}.
          sendWorld_section E w cx cy cz (x, y, z) =
            Some (if isInBounds w (cx * 16 + x) (cy * 16 + y) (cz * 16 + z)
                  then (case cBlockToBlockState E (getBlockId w (cx * 16 + x) (cy * 16 + y) (cz * 16 + z)) of
                          Some s \<Rightarrow> s | None \<Rightarrow> 0)
                  else barrierId E))
    \<and> (\<forall>cx cz. \<forall>x\<in>{0..15}. \<forall>y\<in>{0..15}. \<forall>z\<in>{0..15}.
          sendWorld_section E w cx (-1) cz (x, y, z) = Some (barrierId E))
    \<and> map (\<lambda>q. (chunkX q, chunkZ q))
          (filter is_ChunkData (drop (length (sent h)) (sent (snd (sendWorld E w h))))) =
        List.product [-1..\<lceil>(of_int width :: rat) / 16\<rceil>] [-1..\<lceil>(of_int depth :: rat) / 16\<rceil>]
    \<and> distinct (map (\<lambda>q. (chunkX q, chunkZ q))
          (filter is_ChunkData (drop (length (sent h)) (sent (snd (sendWorld E w h))))))"
proof -
  have a: "fst (sendWorld E w h) = Inr ()"
    by (simp add: sendWorld_sent [OF p])
  have b: "filter is_ChunkData (drop (length (sent h)) (sent (snd (sendWorld E w h)))) =
        concat (map (\<lambda>cx. map (\<lambda>cz. sendWorld_column E w cx cz) [-1..\<lceil>(of_int depth :: rat) / 16\<rceil>])
                 [-1..\<lceil>(of_int width :: rat) / 16\<rceil>])"
    by (simp add: sendWorld_sent [OF p] size filter_columns filter_spawns)
  have c: "\<forall>cx cz. chunkX (sendWorld_column E w cx cz) = cx \<and> chunkZ (sendWorld_column E w cx cz) = cz
          \<and> sections (sendWorld_column E w cx cz) =
              map (\<lambda>cy. sendWorld_section E w cx cy cz) [-1..\<lceil>(of_int height :: rat) / 16\<rceil> - 1]"
    by (simp add: sendWorld_column_fields size)
  have d: "\<forall>cx cy cz. \<forall>x\<in>{0..15}. \<forall>y\<in>{0..15}. \<forall>z\<in>{0..15}.
          sendWorld_section E w cx cy cz (x, y, z) =
            Some (if isInBounds w (cx * 16 + x) (cy * 16 + y) (cz * 16 + z)
                  then (case cBlockToBlockState E (getBlockId w (cx * 16 + x) (cy * 16 + y) (cz * 16 + z)) of
                          Some s \<Rightarrow> s | None \<Rightarrow> 0)
                  else barrierId E)"
    by (simp add: sendWorld_section_lookup)
  have e: "\<forall>cx cz. \<forall>x\<in>{0..15}. \<forall>y\<in>{0..15}. \<forall>z\<in>{0..15}.
          sendWorld_section E w cx (-1) cz (x, y, z) = Some (barrierId E)"
    by (simp add: sendWorld_section_lookup isInBounds_def size)
  have f: "map (\<lambda>q. (chunkX q, chunkZ q))
          (filter is_ChunkData (drop (length (sent h)) (sent (snd (sendWorld E w h))))) =
        List.product [-1..\<lceil>(of_int width :: rat) / 16\<rceil>] [-1..\<lceil>(of_int depth :: rat) / 16\<rceil>]"
    unfolding b by (rule column_coordinates)
  have g: "distinct (map (\<lambda>q. (chunkX q, chunkZ q))
          (filter is_ChunkData (drop (length (sent h)) (sent (snd (sendWorld E w h))))))"
    unfolding f by (simp add: distinct_product)
  from a b c d e f g show ?thesis by blast
qed

text \<open>
  The example world (\<open>16 \<times> 16 \<times> 16\<close>): nine columns, two sections each, the lower one
  all barrier, the upper one the world, and barrier again beyond the world's edge.
\<close>

theorem sendWorld_columns_witness:
  "fst (sendWorld exampleEnv exampleWorld exampleHandler) = Inr ()
   \<and> map (\<lambda>q. (chunkX q, chunkZ q))
       (filter is_ChunkData (sent (snd (sendWorld exampleEnv exampleWorld exampleHandler)))) =
     [(-1, -1), (-1, 0), (-1, 1), (0, -1), (0, 0), (0, 1), (1, -1), (1, 0), (1, 1)]
   \<and> sections (sendWorld_column exampleEnv exampleWorld 0 0) =
       [sendWorld_section exampleEnv exampleWorld 0 (-1) 0, sendWorld_section exampleEnv exampleWorld 0 0 0]
   \<and> sendWorld_section exampleEnv exampleWorld 0 (-1) 0 (3, 15, 4) = Some 7
   \<and> sendWorld_section exampleEnv exampleWorld 0 0 0 (3, 15, 4) = Some 1
   \<and> sendWorld_section exampleEnv exampleWorld 1 0 0 (3, 15, 4) = Some 7"
proof -
  have p: "player exampleHandler = Some examplePlayer"
    by (simp add: exampleHandler_def)
  have size: "getSize exampleWorld = (16, 16, 16)"
    by (simp add: exampleWorld_def)
  have u: "[-1..(1::int)] = [-1, 0, 1]" "[-1..(0::int)] = [-1, 0]" by (simp_all add: upto_rec1)
  have s0: "sent exampleHandler = []" by (simp add: exampleHandler_def freshHandler_def)
  note t = sendWorld_columns [OF p size, of exampleEnv]
  have t1: "fst (sendWorld exampleEnv exampleWorld exampleHandler) = Inr ()"
    using t by blast
  have t2: "filter is_ChunkData (sent (snd (sendWorld exampleEnv exampleWorld exampleHandler))) =
      concat (map (\<lambda>cx. map (\<lambda>cz. sendWorld_column exampleEnv exampleWorld cx cz) [-1, 0, 1]) [-1, 0, 1])"
    using t [THEN conjunct2, THEN conjunct1] by (simp add: s0 u)
  have t3: "\<And>cx cz. chunkX (sendWorld_column exampleEnv exampleWorld cx cz) = cx
      \<and> chunkZ (sendWorld_column exampleEnv exampleWorld cx cz) = cz
      \<and> sections (sendWorld_column exampleEnv exampleWorld cx cz) =
          map (\<lambda>cy. sendWorld_section exampleEnv exampleWorld cx cy cz) [-1, 0]"
    using t [THEN conjunct2, THEN conjunct2, THEN conjunct1] by (simp add: u)
  have t4: "\<And>cx cy cz. sendWorld_section exampleEnv exampleWorld cx cy cz (3, 15, 4) =
      Some (if isInBounds exampleWorld (cx * 16 + 3) (cy * 16 + 15) (cz * 16 + 4)
            then (case cBlockToBlockState exampleEnv
                         (getBlockId exampleWorld (cx * 16 + 3) (cy * 16 + 15) (cz * 16 + 4)) of
                    Some s \<Rightarrow> s | None \<Rightarrow> 0)
            else barrierId exampleEnv)"
    using t [THEN conjunct2, THEN conjunct2, THEN conjunct2, THEN conjunct1] by simp
  show ?thesis
    by (simp add: t1 t2 t3 t4) (simp add: isInBounds_def exampleWorld_def exampleEnv_def)
qed

subsection \<open>C2: finish-dig outside the world\<close>

text \<open>
  C2. A player-action packet with status 2 always leaves \<open>minePos\<close> and \<open>mineTime\<close>
  cleared. When its position is outside the bounds of the player's world (or the session
  has no player, so that there is no world to be inside of), the handler sends a
  set-block packet with the barrier at that position and nothing else changes: in
  particular no call to the player's block-break action is recorded.
\<close>

theorem finish_dig_out_of_bounds:
  "minePos (playPackets_0x1c E now 2 (x, y, z) h) = None
   \<and> mineTime (playPackets_0x1c E now 2 (x, y, z) h) = None
   \<and> ((\<forall>p. player h = Some p \<longrightarrow> \<not> isInBounds (world p) x y z) \<longrightarrow>
        playPackets_0x1c E now 2 (x, y, z) h =
          h\<lparr>minePos := None, mineTime := None, sent := sent h @ [SetBlock x y z (barrierId E)]\<rparr>
        \<and> calls (playPackets_0x1c E now 2 (x, y, z) h) = calls h)"
  by (cases "player h")
     (auto simp: playPackets_0x1c_def send_def Let_def split: prod.splits)

theorem finish_dig_out_of_bounds_witness:
  "\<not> isInBounds exampleWorld 20 0 0
   \<and> sent (playPackets_0x1c exampleEnv 1000 2 (20, 0, 0) exampleHandler) = [SetBlock 20 0 0 7]
   \<and> calls (playPackets_0x1c exampleEnv 1000 2 (20, 0, 0) exampleHandler) = []
   \<and> minePos (playPackets_0x1c exampleEnv 1000 2 (20, 0, 0)
        (exampleHandler\<lparr>minePos := Some (20, 0, 0), mineTime := Some 900\<rparr>)) = None"
  using finish_dig_out_of_bounds [of exampleEnv 1000 20 0 0 exampleHandler]
    finish_dig_out_of_bounds [of exampleEnv 1000 20 0 0 "exampleHandler\<lparr>minePos := Some (20, 0, 0), mineTime := Some 900\<rparr>"]
  by (simp add: exampleHandler_def freshHandler_def examplePlayer_def exampleWorld_def
      exampleEnv_def isInBounds_def)

subsection \<open>C3: use item on a block\<close>

text \<open>
  The claim C3 has the acknowledgement sent in every case, an empty hand included. With
  item \<open>0\<close> in the held slot the handler does nothing at all: the session is returned as
  it was, and no acknowledgement of sequence number 17 is among the packets sent.
\<close>

theorem use_item_on_counterexample:
  "playPackets_0x30 exampleEnv (2, 2, 2) 1 17 (exampleHandler\<lparr>inventory := [36 \<mapsto> 0]\<rparr>)
     = Inr (exampleHandler\<lparr>inventory := [36 \<mapsto> 0]\<rparr>)
   \<and> AcknowledgeBlockChange 17 \<notin> set (sent (exampleHandler\<lparr>inventory := [36 \<mapsto> 0]\<rparr>))"
  by (simp add: playPackets_0x30_def exampleHandler_def freshHandler_def)

text \<open>
  C3, as the code has it. Let the face id be one of \<open>0, ..., 5\<close> and \<open>(fx, fy, fz)\<close> its
  entry in the table \<open>-Y, +Y, -Z, +Z, -X, +X\<close>; the adjacent cell is the clicked position
  plus that entry. Let \<open>item\<close> be what the inventory holds in the held slot.
  \<^item> When the item is \<open>0\<close>, the handler does nothing: no call, no packet, no
    acknowledgement.
  \<^item> Otherwise, with no player in the session, it only acknowledges the sequence number.
  \<^item> Otherwise, with a player in the session: when the item maps to a block, it calls
    the block-place action at the adjacent cell with that block and then acknowledges
    the sequence number;
  \<^item> and when it does not (no block for the item, or no item in the slot), it sends the
    server's own block at the adjacent cell, translated, and then acknowledges the
    sequence number.
\<close>

theorem use_item_on:
  assumes face: "0 \<le> faceId" "faceId < 6"
      "(fx, fy, fz) = [(0, -1, 0), (0, 1, 0), (0, 0, -1), (0, 0, 1), (-1, 0, 0), (1, 0, 0)] ! nat faceId"
      and item: "inventory h (inventorySlot h + 36) = item"
  shows
    "(item = Some 0 \<longrightarrow> playPackets_0x30 E (px, py, pz) faceId sequence h = Inr h)
   \<and> (item \<noteq> Some 0 \<and> player h = None \<longrightarrow>
        playPackets_0x30 E (px, py, pz) faceId sequence h =
          Inr (h\<lparr>sent := sent h @ [AcknowledgeBlockChange sequence]\<rparr>))
   \<and> (\<forall>p i b. item = Some i \<and> i \<noteq> 0 \<and> itemToCBlock E i = Some b \<and> player h = Some p \<longrightarrow>
        playPackets_0x30 E (px, py, pz) faceId sequence h =
          Inr (h\<lparr>player := Some (action_block_place E p (px + fx) (py + fy) (pz + fz) b),
                 calls := calls h @ [BlockPlace (px + fx) (py + fy) (pz + fz) b],
                 sent := sent h @ [AcknowledgeBlockChange sequence]\<rparr>))
   \<and> (\<forall>p. item \<noteq> Some 0 \<and> Option.bind item (itemToCBlock E) = None \<and> player h = Some p \<longrightarrow>
        playPackets_0x30 E (px, py, pz) faceId sequence h =
          Inr (h\<lparr>sent := sent h @
                 [SetBlock (px + fx) (py + fy) (pz + fz)
                    (case cBlockToBlockState E (getBlockId (world p) (px + fx) (py + fy) (pz + fz)) of
                       Some s \<Rightarrow> s | None \<Rightarrow> 0),
                  AcknowledgeBlockChange sequence]\<rparr>))"
proof -
  have "index directions faceId = Some (fx, fy, fz)"
    using face by (simp add: index_def directions_def)
  with item show ?thesis
    by (cases item)
       (auto simp: playPackets_0x30_def setBlock_def send_def Let_def split: option.splits)
qed

text \<open>
  Face \<open>1\<close> (\<open>+Y\<close>) at the block \<open>(2, 2, 2)\<close> with sequence number 17: a placeable item is
  placed at \<open>(2, 3, 2)\<close>, an item without a block has the block at \<open>(2, 3, 2)\<close> sent
  again, both are acknowledged with 17; an empty hand is not.
\<close>

theorem use_item_on_witness:
  "playPackets_0x30 exampleEnv (2, 2, 2) 1 17 (exampleHandler\<lparr>inventory := [36 \<mapsto> 1]\<rparr>) =
     Inr (exampleHandler\<lparr>inventory := [36 \<mapsto> 1], calls := [BlockPlace 2 3 2 1],
            sent := [AcknowledgeBlockChange 17]\<rparr>)
   \<and> playPackets_0x30 exampleEnv (2, 2, 2) 1 17 (exampleHandler\<lparr>inventory := [36 \<mapsto> 5]\<rparr>) =
     Inr (exampleHandler\<lparr>inventory := [36 \<mapsto> 5],
            sent := [SetBlock 2 3 2 1, AcknowledgeBlockChange 17]\<rparr>)
   \<and> playPackets_0x30 exampleEnv (2, 2, 2) 1 17 (exampleHandler\<lparr>inventory := [36 \<mapsto> 0]\<rparr>) =
     Inr (exampleHandler\<lparr>inventory := [36 \<mapsto> 0]\<rparr>)
   \<and> playPackets_0x30 exampleEnv (2, 2, 2) 1 17 (freshHandler\<lparr>inventory := [36 \<mapsto> 1]\<rparr>) =
     Inr (freshHandler\<lparr>inventory := [36 \<mapsto> 1], sent := [AcknowledgeBlockChange 17]\<rparr>)"
proof -
  have face: "(0::int) \<le> 1" "(1::int) < 6"
    "(0, 1, 0) = [(0, -1, 0), (0, 1, 0), (0, 0, -1), (0, 0, 1), (-1, 0, 0), (1, 0, 0)] ! nat 1"
    by simp_all
  show ?thesis
    using use_item_on [OF face, of "exampleHandler\<lparr>inventory := [36 \<mapsto> 1]\<rparr>" "Some 1" exampleEnv 2 2 2 17]
      use_item_on [OF face, of "exampleHandler\<lparr>inventory := [36 \<mapsto> 5]\<rparr>" "Some 5" exampleEnv 2 2 2 17]
      use_item_on [OF face, of "exampleHandler\<lparr>inventory := [36 \<mapsto> 0]\<rparr>" "Some 0" exampleEnv 2 2 2 17]
      use_item_on [OF face, of "freshHandler\<lparr>inventory := [36 \<mapsto> 1]\<rparr>" "Some 1" exampleEnv 2 2 2 17]
    by (simp add: exampleHandler_def freshHandler_def examplePlayer_def exampleWorld_def exampleEnv_def)
qed


subsection \<open>C4: the tick resolves an overdue dig\<close>

text \<open>
  C4. Let the session hold a pending dig at \<open>pos\<close> started at time \<open>t\<close>, with \<open>t\<close> a reading
  of the clock (milliseconds since the epoch, so not \<open>0\<close>, which the guard of the tick
  would take for "no timestamp"), and let the tick come more than 200 ms later. Then,
  after its keep-alive, the tick does exactly what the handler of a finish-dig packet
  (status 2) at \<open>pos\<close> does; the pending dig is cleared; and whatever ticks follow, at the
  times \<open>ts\<close>, only add their keep-alive packets: no further block-break call, no further
  world-event or set-block packet.
\<close>

theorem tick_resolves_like_finish_dig:
  assumes "minePos h = Some pos" and "mineTime h = Some t" and "t \<noteq> 0" and "now - t > 200"
  shows "tick E now h =
           playPackets_0x1c E now' 2 pos (if now smod 2 = 0 then send (KeepAlive now) h else h)
    \<and> minePos (tick E now h) = None \<and> mineTime (tick E now h) = None
    \<and> fold (tick E) ts (tick E now h) =
         (tick E now h)\<lparr>sent := sent (tick E now h) @ map KeepAlive (filter (\<lambda>t. t smod 2 = 0) ts)\<rparr>"
proof -
  have eq: "tick E now h =
      playPackets_0x1c E now' 2 pos (if now smod 2 = 0 then send (KeepAlive now) h else h)"
    using assms by (simp add: tick_def playPackets_0x1c_def send_def Let_def split: prod.splits)
  have cleared: "minePos (tick E now h) = None \<and> mineTime (tick E now h) = None"
    unfolding eq by (simp add: playPackets_0x1c_def Let_def split: prod.splits)
  then have "fold (tick E) ts (tick E now h) =
      (tick E now h)\<lparr>sent := sent (tick E now h) @ map KeepAlive (filter (\<lambda>t. t smod 2 = 0) ts)\<rparr>"
    by (simp add: ticks_idle)
  with eq cleared show ?thesis by simp
qed

text \<open>
  Start-dig at \<open>(5, 10, 5)\<close> at time 1000, a tick at 1250 and no finish-dig packet: the
  tick breaks the block once and sends the world event; the ticks at 1500 and 1751 add
  nothing to the calls.
\<close>

theorem tick_resolves_like_finish_dig_witness:
  "tick exampleEnv 1250 (playPackets_0x1c exampleEnv 1000 0 (5, 10, 5) exampleHandler) =
     playPackets_0x1c exampleEnv 1250 2 (5, 10, 5)
       (send (KeepAlive 1250) (playPackets_0x1c exampleEnv 1000 0 (5, 10, 5) exampleHandler))
   \<and> sent (tick exampleEnv 1250 (playPackets_0x1c exampleEnv 1000 0 (5, 10, 5) exampleHandler)) =
       [KeepAlive 1250, WorldEvent 2001 (5, 10, 5) (Some 1) False]
   \<and> calls (fold (tick exampleEnv) [1500, 1751]
        (tick exampleEnv 1250 (playPackets_0x1c exampleEnv 1000 0 (5, 10, 5) exampleHandler))) =
       [BlockBreak 5 10 5]
   \<and> minePos (tick exampleEnv 1250 (playPackets_0x1c exampleEnv 1000 0 (5, 10, 5) exampleHandler)) = None"
proof -
  let ?h = "playPackets_0x1c exampleEnv 1000 0 (5, 10, 5) exampleHandler"
  let ?r = "exampleHandler\<lparr>sent := [KeepAlive 1250, WorldEvent 2001 (5, 10, 5) (Some 1) False],
        calls := [BlockBreak 5 10 5]\<rparr>"
  have h: "?h = exampleHandler\<lparr>minePos := Some (5, 10, 5), mineTime := Some 1000\<rparr>"
    by (simp add: playPackets_0x1c_def)
  have pre: "minePos ?h = Some (5, 10, 5)" "mineTime ?h = Some 1000" "(1000::int) \<noteq> 0"
    "(1250::int) - 1000 > 200"
    by (simp_all add: h)
  have fin: "playPackets_0x1c exampleEnv 1250 2 (5, 10, 5) (send (KeepAlive 1250) ?h) = ?r"
    by (simp add: h playPackets_0x1c_def send_def exampleHandler_def freshHandler_def
        examplePlayer_def exampleWorld_def exampleEnv_def isInBounds_def)
  note t = tick_resolves_like_finish_dig [OF pre, of exampleEnv 1250 "[1500, 1751]"]
  have r: "tick exampleEnv 1250 ?h = ?r"
    using t [THEN conjunct1] by (simp add: smod_2_examples fin)
  have later: "fold (tick exampleEnv) [1500, 1751] ?r =
      ?r\<lparr>sent := sent ?r @ map KeepAlive (filter (\<lambda>t. t smod 2 = 0) [1500, 1751])\<rparr>"
    using t [THEN conjunct2, THEN conjunct2, THEN conjunct2] by (simp only: r)
  have "calls (fold (tick exampleEnv) [1500, 1751] ?r) = [BlockBreak 5 10 5]"
    by (simp only: later) simp
  moreover have "sent ?r = [KeepAlive 1250, WorldEvent 2001 (5, 10, 5) (Some 1) False]"
    by simp
  moreover have "minePos ?r = None"
    by (simp add: exampleHandler_def freshHandler_def)
  ultimately show ?thesis by (simp only: r fin simp_thms)
qed

subsection \<open>C5: yaw and pitch of the movement packets\<close>

text \<open>
  The claim C5 has the yaw forwarded as \<open>((yaw + 180) mod 360) / 360 * 256\<close>. For the yaw
  \<open>-270\<close> that is \<open>270 / 360 * 256 = 192\<close>; the handler forwards \<open>-64\<close>, because the
  remainder \<^verbatim>\<open>%\<close> of \<open>-90\<close> by \<open>360\<close> is \<open>-90\<close>. (Every value on the way, \<open>-90\<close>, \<open>-1/4\<close>,
  \<open>-64\<close>, \<open>1/8\<close> and \<open>32\<close>, is a double, so that no rounding takes part.)
\<close>

theorem rotation_renormalized_counterexample:
  "calls (playPackets_0x15 exampleEnv (Num (-270)) (Num 45) exampleHandler) =
     [Move (Num 8) (Num 10) (Num 8) (Num (-64)) (Num 32)]
   \<and> of_int ((-270 + 180) mod 360) / 360 * 256 = (192 :: rat)
   \<and> Num (-64) \<noteq> Num 192"
proof -
  have "js_rem (-90) 360 = -90"
    by (rule js_rem_unique [where k = 0]) simp_all
  then show ?thesis
    by (simp add: playPackets_0x15_def num_add_def num_rem_def num_div_def num_mul_def Let_def
        exampleHandler_def freshHandler_def examplePlayer_def exampleEnv_def)
qed

text \<open>
  C5, as the code has it. With no player in the session the packets \<^verbatim>\<open>0x14\<close> and
  \<^verbatim>\<open>0x15\<close> forward nothing. With a player, each makes one call of the move action (the
  first with the position of the packet, the second with the player's own), and the yaw
  and pitch of that call are \<open>((yaw + 180) % 360) / 360 * 256\<close> and \<open>pitch / 360 * 256\<close> in
  the arithmetic of doubles:
  \<^item> a quotient by \<open>360\<close> followed by a product with \<open>256\<close>, each rounded to a double,
    maps a finite value to \<open>round (round (v / 360) * 256)\<close> and leaves an infinity or
    \<^verbatim>\<open>NaN\<close> as it is (\<open>scale\<close> below); the pitch forwarded is the pitch of the packet,
    scaled;
  \<^item> for a finite yaw whose sum \<open>a = round (yaw + 180)\<close> is finite, the yaw forwarded is
    the scaled remainder \<open>r\<close> of \<open>a\<close> by \<open>360\<close>, the remainder being truncating: \<open>a - r\<close> is a
    multiple of \<open>360\<close>, \<open>r\<close> is smaller than \<open>360\<close> in magnitude and has the sign of \<open>a\<close>
    (it is not the mathematical modulo: for \<open>yaw + 180 < 0\<close> the yaw forwarded is negative
    or zero);
  \<^item> for a yaw that is \<^verbatim>\<open>NaN\<close> or infinite, or whose sum is not finite, the yaw forwarded
    is \<^verbatim>\<open>NaN\<close>.
\<close>

theorem rotation_renormalized:
  "(case player h of
      None \<Rightarrow> playPackets_0x14 E x y z yw pt h = h \<and> playPackets_0x15 E yw pt h = h
    | Some p \<Rightarrow>
        (let scale = (\<lambda>v. case v of
                          Num g \<Rightarrow> (case round64 E (g / 360) of
                                      Num q \<Rightarrow> round64 E (q * 256) | PosInf \<Rightarrow> PosInf
                                    | NegInf \<Rightarrow> NegInf | NaN \<Rightarrow> NaN)
                        | PosInf \<Rightarrow> PosInf | NegInf \<Rightarrow> NegInf | NaN \<Rightarrow> NaN);
             forwards = (\<lambda>yaw'.
                 calls (playPackets_0x14 E x y z yw pt h) = calls h @ [Move x y z yaw' (scale pt)]
               \<and> player (playPackets_0x14 E x y z yw pt h) =
                   Some (action_move E p x y z yaw' (scale pt))
               \<and> calls (playPackets_0x15 E yw pt h) =
                   calls h @ [Move (fst (position p)) (fst (snd (position p))) (snd (snd (position p)))
                                yaw' (scale pt)]
               \<and> player (playPackets_0x15 E yw pt h) =
                   Some (action_move E p (fst (position p)) (fst (snd (position p)))
                           (snd (snd (position p))) yaw' (scale pt)))
         in (\<forall>f a k r. yw = Num f \<and> round64 E (f + 180) = Num a
                \<and> a = 360 * of_int k + r \<and> \<bar>r\<bar> < 360 \<and> (0 \<le> a \<longrightarrow> 0 \<le> r) \<and> (a \<le> 0 \<longrightarrow> r \<le> 0)
                \<longrightarrow> forwards (scale (Num r)))
          \<and> ((\<forall>f a. yw = Num f \<longrightarrow> round64 E (f + 180) \<noteq> Num a) \<longrightarrow> forwards NaN)))"
proof (cases "player h")
  case None
  then show ?thesis by (simp add: playPackets_0x14_def playPackets_0x15_def)
next
  case (Some p)
  have finite_yaw: "num_rem (num_add E yw 180) 360 = Num r"
    if "yw = Num f" "round64 E (f + 180) = Num a" "a = 360 * of_int k + r" "\<bar>r\<bar> < 360"
       "0 \<le> a \<longrightarrow> 0 \<le> r" "a \<le> 0 \<longrightarrow> r \<le> 0" for f a k r
  proof -
    have "js_rem a 360 = r"
      using that by (intro js_rem_unique [where k = k]) simp_all
    with that show ?thesis by (simp add: num_add_def num_rem_def)
  qed
  have other_yaw: "num_rem (num_add E yw 180) 360 = NaN"
    if "\<forall>f a. yw = Num f \<longrightarrow> round64 E (f + 180) \<noteq> Num a"
    using that by (cases yw; cases "num_add E yw 180") (auto simp: num_add_def num_rem_def)
  let ?S = "\<lambda>v. case v of
                 Num g \<Rightarrow> (case round64 E (g / 360) of
                             Num q \<Rightarrow> round64 E (q * 256) | PosInf \<Rightarrow> PosInf
                           | NegInf \<Rightarrow> NegInf | NaN \<Rightarrow> NaN)
               | PosInf \<Rightarrow> PosInf | NegInf \<Rightarrow> NegInf | NaN \<Rightarrow> NaN"
  let ?Y = "?S (num_rem (num_add E yw 180) 360)"
  have scale: "num_mul E (num_div E v 360) 256 = ?S v" for v
    by (simp add: num_mul_def num_div_def split: number.splits)
  have c14: "calls (playPackets_0x14 E x y z yw pt h) = calls h @ [Move x y z ?Y (?S pt)]"
    by (simp add: playPackets_0x14_def Some Let_def scale)
  have p14: "player (playPackets_0x14 E x y z yw pt h) = Some (action_move E p x y z ?Y (?S pt))"
    by (simp add: playPackets_0x14_def Some Let_def scale)
  have c15: "calls (playPackets_0x15 E yw pt h) =
      calls h @ [Move (fst (position p)) (fst (snd (position p))) (snd (snd (position p))) ?Y (?S pt)]"
    by (simp add: playPackets_0x15_def Some Let_def scale split: prod.splits)
  have p15: "player (playPackets_0x15 E yw pt h) =
      Some (action_move E p (fst (position p)) (fst (snd (position p))) (snd (snd (position p)))
              ?Y (?S pt))"
    by (simp add: playPackets_0x15_def Some Let_def scale split: prod.splits)
  show ?thesis
    unfolding Some option.case Let_def
  proof (rule conjI)
    show "\<forall>f a k r. yw = Num f \<and> round64 E (f + 180) = Num a
                \<and> a = 360 * of_int k + r \<and> \<bar>r\<bar> < 360 \<and> (0 \<le> a \<longrightarrow> 0 \<le> r) \<and> (a \<le> 0 \<longrightarrow> r \<le> 0)
          \<longrightarrow> calls (playPackets_0x14 E x y z yw pt h) = calls h @ [Move x y z (?S (Num r)) (?S pt)]
            \<and> player (playPackets_0x14 E x y z yw pt h) =
                Some (action_move E p x y z (?S (Num r)) (?S pt))
            \<and> calls (playPackets_0x15 E yw pt h) =
                calls h @ [Move (fst (position p)) (fst (snd (position p))) (snd (snd (position p)))
                             (?S (Num r)) (?S pt)]
            \<and> player (playPackets_0x15 E yw pt h) =
                Some (action_move E p (fst (position p)) (fst (snd (position p)))
                        (snd (snd (position p))) (?S (Num r)) (?S pt))"
    proof (intro allI impI)
      fix f a k r
      assume "yw = Num f \<and> round64 E (f + 180) = Num a
                \<and> a = 360 * of_int k + r \<and> \<bar>r\<bar> < 360 \<and> (0 \<le> a \<longrightarrow> 0 \<le> r) \<and> (a \<le> 0 \<longrightarrow> r \<le> 0)"
      then have "num_rem (num_add E yw 180) 360 = Num r"
        by (intro finite_yaw [where f = f and a = a and k = k]) simp_all
      then show "calls (playPackets_0x14 E x y z yw pt h) = calls h @ [Move x y z (?S (Num r)) (?S pt)]
            \<and> player (playPackets_0x14 E x y z yw pt h) =
                Some (action_move E p x y z (?S (Num r)) (?S pt))
            \<and> calls (playPackets_0x15 E yw pt h) =
                calls h @ [Move (fst (position p)) (fst (snd (position p))) (snd (snd (position p)))
                             (?S (Num r)) (?S pt)]
            \<and> player (playPackets_0x15 E yw pt h) =
                Some (action_move E p (fst (position p)) (fst (snd (position p)))
                        (snd (snd (position p))) (?S (Num r)) (?S pt))"
        by (simp add: c14 p14 c15 p15)
    qed
  next
    show "(\<forall>f a. yw = Num f \<longrightarrow> round64 E (f + 180) \<noteq> Num a)
          \<longrightarrow> calls (playPackets_0x14 E x y z yw pt h) = calls h @ [Move x y z NaN (?S pt)]
            \<and> player (playPackets_0x14 E x y z yw pt h) = Some (action_move E p x y z NaN (?S pt))
            \<and> calls (playPackets_0x15 E yw pt h) =
                calls h @ [Move (fst (position p)) (fst (snd (position p))) (snd (snd (position p)))
                             NaN (?S pt)]
            \<and> player (playPackets_0x15 E yw pt h) =
                Some (action_move E p (fst (position p)) (fst (snd (position p)))
                        (snd (snd (position p))) NaN (?S pt))"
    proof
      assume "\<forall>f a. yw = Num f \<longrightarrow> round64 E (f + 180) \<noteq> Num a"
      then have "num_rem (num_add E yw 180) 360 = NaN" by (rule other_yaw)
      then show "calls (playPackets_0x14 E x y z yw pt h) = calls h @ [Move x y z NaN (?S pt)]
            \<and> player (playPackets_0x14 E x y z yw pt h) = Some (action_move E p x y z NaN (?S pt))
            \<and> calls (playPackets_0x15 E yw pt h) =
                calls h @ [Move (fst (position p)) (fst (snd (position p))) (snd (snd (position p)))
                             NaN (?S pt)]
            \<and> player (playPackets_0x15 E yw pt h) =
                Some (action_move E p (fst (position p)) (fst (snd (position p)))
                        (snd (snd (position p))) NaN (?S pt))"
        by (simp add: c14 p14 c15 p15)
    qed
  qed
qed

text \<open>
  The yaw 270 wraps: \<open>450\<close> leaves \<open>90\<close>, forwarded as \<open>64\<close>, with the pitch \<open>45\<close> as \<open>32\<close>. The
  yaw \<open>-630\<close> wraps the other way: \<open>-450\<close> leaves \<open>-90\<close>, forwarded as \<open>-64\<close>. A yaw that is
  \<^verbatim>\<open>NaN\<close> is forwarded as \<^verbatim>\<open>NaN\<close>, and an infinite pitch as it is.
\<close>

theorem rotation_renormalized_witness:
  "calls (playPackets_0x14 exampleEnv (Num 1) (Num 2) (Num 3) (Num 270) (Num 45) exampleHandler) =
     [Move (Num 1) (Num 2) (Num 3) (Num 64) (Num 32)]
   \<and> calls (playPackets_0x15 exampleEnv (Num (-630)) (Num 45) exampleHandler) =
     [Move (Num 8) (Num 10) (Num 8) (Num (-64)) (Num 32)]
   \<and> calls (playPackets_0x15 exampleEnv NaN PosInf exampleHandler) =
     [Move (Num 8) (Num 10) (Num 8) NaN PosInf]
   \<and> playPackets_0x14 exampleEnv (Num 1) (Num 2) (Num 3) (Num 270) (Num 45) freshHandler = freshHandler"
proof -
  have p: "player exampleHandler = Some examplePlayer" "player freshHandler = None"
    "calls exampleHandler = []" "position examplePlayer = (Num 8, Num 10, Num 8)"
    "round64 exampleEnv = Num"
    by (simp_all add: exampleHandler_def freshHandler_def examplePlayer_def exampleEnv_def)
  note t1 = rotation_renormalized [where h = exampleHandler and E = exampleEnv and x = "Num 1"
      and y = "Num 2" and z = "Num 3" and yw = "Num 270" and pt = "Num 45"]
  note t2 = rotation_renormalized [where h = exampleHandler and E = exampleEnv and x = "Num 1"
      and y = "Num 2" and z = "Num 3" and yw = "Num (-630)" and pt = "Num 45"]
  note t3 = rotation_renormalized [where h = exampleHandler and E = exampleEnv and x = "Num 1"
      and y = "Num 2" and z = "Num 3" and yw = NaN and pt = PosInf]
  note t4 = rotation_renormalized [where h = freshHandler and E = exampleEnv and x = "Num 1"
      and y = "Num 2" and z = "Num 3" and yw = "Num 270" and pt = "Num 45"]
  have a: "calls (playPackets_0x14 exampleEnv (Num 1) (Num 2) (Num 3) (Num 270) (Num 45) exampleHandler) =
     [Move (Num 1) (Num 2) (Num 3) (Num 64) (Num 32)]"
    using t1 [unfolded p option.case Let_def, THEN conjunct1, rule_format, of 270 450 1 90]
    by (simp add: p)
  have b: "calls (playPackets_0x15 exampleEnv (Num (-630)) (Num 45) exampleHandler) =
     [Move (Num 8) (Num 10) (Num 8) (Num (-64)) (Num 32)]"
    using t2 [unfolded p option.case Let_def, THEN conjunct1, rule_format, of "-630" "-450" "-1" "-90"]
    by (simp add: p)
  have c: "calls (playPackets_0x15 exampleEnv NaN PosInf exampleHandler) =
     [Move (Num 8) (Num 10) (Num 8) NaN PosInf]"
    using t3 [unfolded p option.case Let_def, THEN conjunct2]
    by (simp add: p)
  have d: "playPackets_0x14 exampleEnv (Num 1) (Num 2) (Num 3) (Num 270) (Num 45) freshHandler = freshHandler"
    using t4 by (simp add: p)
  from a b c d show ?thesis by simp
qed

subsection \<open>C6: blocks without a translation\<close>

text \<open>
  The claim C6 has an unmapped block translated to the boundary block-state. Block \<open>5\<close>
  has no entry in the example table, and both \<^verbatim>\<open>setBlock\<close> and the sections of
  \<^verbatim>\<open>sendWorld\<close> give it the state \<open>0\<close>, while the barrier is \<open>7\<close>.
\<close>

theorem translation_fallback_counterexample:
  "cBlockToBlockState exampleEnv 5 = None
   \<and> sent (setBlock exampleEnv 0 0 0 5 freshHandler) = [SetBlock 0 0 0 0]
   \<and> sendWorld_section exampleEnv (exampleWorld\<lparr>getBlockId := (\<lambda>x y z. 5)\<rparr>) 0 0 0 (0, 0, 0) = Some 0
   \<and> barrierId exampleEnv = 7"
  by (simp add: sendWorld_section_lookup setBlock_def send_def exampleEnv_def
      freshHandler_def exampleWorld_def isInBounds_def)

text \<open>
  C6, as the code has it. The translation never fails: for a block without an entry in
  the table, \<^verbatim>\<open>setBlock\<close> sends the block-state \<open>0\<close>, and every in-bounds cell of a section
  that holds such a block gets the block-state \<open>0\<close>.
\<close>

theorem translation_fallback:
  assumes unmapped: "cBlockToBlockState E block = None"
  shows "setBlock E x y z block h = h\<lparr>sent := sent h @ [SetBlock x y z 0]\<rparr>
    \<and> (\<forall>cx cy cz. \<forall>i\<in>{0..15}. \<forall>j\<in>{0..15}. \<forall>k\<in>{0..15}.
          isInBounds w (cx * 16 + i) (cy * 16 + j) (cz * 16 + k)
          \<and> getBlockId w (cx * 16 + i) (cy * 16 + j) (cz * 16 + k) = block
          \<longrightarrow> sendWorld_section E w cx cy cz (i, j, k) = Some 0)"
  using unmapped
  by (simp add: setBlock_def send_def sendWorld_section_lookup)

theorem translation_fallback_witness:
  "setBlock exampleEnv 0 0 0 5 freshHandler = freshHandler\<lparr>sent := [SetBlock 0 0 0 0]\<rparr>
   \<and> sendWorld_section exampleEnv (exampleWorld\<lparr>getBlockId := (\<lambda>x y z. 5)\<rparr>) 0 0 0 (3, 4, 5) = Some 0"
proof -
  have u: "cBlockToBlockState exampleEnv 5 = None" by (simp add: exampleEnv_def)
  have b: "isInBounds (exampleWorld\<lparr>getBlockId := (\<lambda>x y z. 5)\<rparr>) (0 * 16 + 3) (0 * 16 + 4) (0 * 16 + 5)"
    by (simp add: isInBounds_def exampleWorld_def)
  from translation_fallback [OF u, of 0 0 0 freshHandler "exampleWorld\<lparr>getBlockId := (\<lambda>x y z. 5)\<rparr>"] b
  show ?thesis by (simp add: freshHandler_def)
qed

subsection \<open>C7: a denied connection\<close>

text \<open>
  C7. Let a connection that has no player yet be handed to \<^verbatim>\<open>connectPlayer\<close>, and let the
  authentication of its identification answer with \<^verbatim>\<open>allow\<close> false. Then the connection
  is sent the server information and the disconnect packet and is closed, the logger
  has the line of the incoming connection, and the server is as it was: the roster has
  no new player and no other field of the server has changed.
\<close>

theorem denied_connection:
  assumes deny: "\<not> snd (authenticatePlayer SE (authRequest SE overrides playerInfo))"
      and fresh: "player (conn sys) = None"
  shows "onPlayerIdentification SE client overrides playerInfo (connectPlayer sys) =
           sys\<lparr>conn := (conn sys)\<lparr>conn_server := True,
                    sent := sent (conn sys) @
                      [ServerInfo softwareName softwareVersion, Disconnect ''You need to log in!''],
                    connClosed := True\<rparr>,
               logger := logger sys @ [LogConnectionFrom (ip (conn sys)) (port (conn sys))]\<rparr>
    \<and> server (onPlayerIdentification SE client overrides playerInfo (connectPlayer sys)) = server sys
    \<and> players (server (onPlayerIdentification SE client overrides playerInfo (connectPlayer sys))) =
        players (server sys)"
proof -
  obtain auth allow where a: "authenticatePlayer SE (authRequest SE overrides playerInfo) = (auth, allow)"
    by (cases "authenticatePlayer SE (authRequest SE overrides playerInfo)")
  with deny have "\<not> allow" by simp
  with a fresh show ?thesis
    by (simp add: onPlayerIdentification_def connectPlayer_def sendServerInfo_def disconnect_def
        send_def close_def patchText_def Let_def)
qed

theorem denied_connection_witness:
  "onPlayerIdentification denyEnv None None \<lparr>pi_username = ''steve'', pi_key = ''k''\<rparr>
     (connectPlayer exampleSystem) =
     exampleSystem\<lparr>conn := freshHandler\<lparr>sent :=
         [ServerInfo ''Cobblestone'' ''0.0.3'', Disconnect ''You need to log in!''],
         connClosed := True\<rparr>,
       logger := [LogConnectionFrom ''127.0.0.1'' 25565]\<rparr>
   \<and> players (server (onPlayerIdentification denyEnv None None \<lparr>pi_username = ''steve'', pi_key = ''k''\<rparr>
        (connectPlayer exampleSystem))) = Map.empty"
  using denied_connection [of denyEnv None "\<lparr>pi_username = ''steve'', pi_key = ''k''\<rparr>" exampleSystem None]
  by (simp add: denyEnv_def exampleSystem_def freshHandler_def softwareName_def softwareVersion_def)

subsection \<open>C8: \<^verbatim>\<open>sendWorld\<close> before \<^verbatim>\<open>setPlayer\<close>\<close>

text \<open>
  C8. On a session without a player \<^verbatim>\<open>sendWorld\<close> throws \<open>Player is not set!\<close> at once:
  the session is returned as it was, so nothing has been sent.
\<close>

theorem sendWorld_without_player:
  "player h = None \<Longrightarrow> sendWorld E w h = (Inl (Thrown ''Player is not set!''), h)"
  by (simp add: sendWorld_def)

theorem sendWorld_without_player_witness:
  "sendWorld exampleEnv exampleWorld freshHandler = (Inl (Thrown ''Player is not set!''), freshHandler)
   \<and> sent (snd (sendWorld exampleEnv exampleWorld freshHandler)) = []
   \<and> fst (sendWorld exampleEnv exampleWorld (setPlayer exampleEnv ''Cobblestone'' ''motd'' examplePlayer freshHandler)) = Inr ()"
proof -
  have "player (setPlayer exampleEnv ''Cobblestone'' ''motd'' examplePlayer freshHandler) = Some examplePlayer"
    by (simp add: setPlayer_def send_def Let_def)
  then have "fst (sendWorld exampleEnv exampleWorld (setPlayer exampleEnv ''Cobblestone'' ''motd'' examplePlayer freshHandler)) = Inr ()"
    by (simp add: sendWorld_sent)
  then show ?thesis
    using sendWorld_without_player [of freshHandler exampleEnv exampleWorld]
    by (simp add: freshHandler_def)
qed

subsection \<open>C9: the creative-mode slot\<close>

text \<open>
  C9. The handler of set-creative-mode-slot writes the inventory only for a slot in
  \<open>[0, 50)\<close>: the slot then holds the packet's item id when an item is present and \<open>0\<close>
  when it is not, and nothing else of the session changes. For any other slot the
  session, and so the whole inventory, is left as it was.
\<close>

theorem creative_slot_frame:
  "playPackets_0x2a slot present itemId h =
     (if slot \<in> {0..<50}
      then h\<lparr>inventory := (inventory h)(slot \<mapsto> (if present then itemId else 0))\<rparr>
      else h)"
  by (simp add: playPackets_0x2a_def)

theorem creative_slot_frame_witness:
  "inventory (playPackets_0x2a 3 True 42 freshHandler) 3 = Some 42
   \<and> inventory (playPackets_0x2a 3 False 42 freshHandler) 3 = Some 0
   \<and> playPackets_0x2a 50 True 42 freshHandler = freshHandler
   \<and> playPackets_0x2a (-1) True 42 freshHandler = freshHandler"
  using creative_slot_frame [of 3 True 42 freshHandler] creative_slot_frame [of 3 False 42 freshHandler]
    creative_slot_frame [of 50 True 42 freshHandler] creative_slot_frame [of "-1" True 42 freshHandler]
  by simp

subsection \<open>C10: what the movement packets leave alone\<close>

text \<open>
  C10. With a player in the session, the position-only packet \<^verbatim>\<open>0x13\<close> forwards the
  packet's position together with the player's current yaw and pitch, and the
  rotation-only packet \<^verbatim>\<open>0x15\<close> forwards the player's current position together with the
  rotation computed from the packet. With no player neither forwards anything.
\<close>

theorem movement_keeps_other_half:
  "(case player h of
      None \<Rightarrow> playPackets_0x13 E x y z h = h \<and> playPackets_0x15 E yw pt h = h
    | Some p \<Rightarrow>
        calls (playPackets_0x13 E x y z h) = calls h @ [Move x y z (yaw p) (pitch p)]
      \<and> player (playPackets_0x13 E x y z h) = Some (action_move E p x y z (yaw p) (pitch p))
      \<and> butlast (calls (playPackets_0x15 E yw pt h)) = calls h
      \<and> (case last (calls (playPackets_0x15 E yw pt h)) of
            Move x' y' z' yaw' pitch' \<Rightarrow>
              (x', y', z') = position p
              \<and> player (playPackets_0x15 E yw pt h) = Some (action_move E p x' y' z' yaw' pitch')
          | _ \<Rightarrow> False))"
  by (simp add: playPackets_0x13_def playPackets_0x15_def Let_def split: prod.splits option.splits)

theorem movement_keeps_other_half_witness:
  "calls (playPackets_0x13 exampleEnv (Num 1) (Num 2) (Num 3)
      (exampleHandler\<lparr>player := Some (examplePlayer\<lparr>yaw := Num 64, pitch := Num 8\<rparr>)\<rparr>))
     = [Move (Num 1) (Num 2) (Num 3) (Num 64) (Num 8)]
   \<and> (case last (calls (playPackets_0x15 exampleEnv (Num 90) (Num 45) exampleHandler)) of
          Move x' y' z' yaw' pitch' \<Rightarrow> (x', y', z') = (Num 8, Num 10, Num 8) | _ \<Rightarrow> False)
   \<and> playPackets_0x13 exampleEnv (Num 1) (Num 2) (Num 3) freshHandler = freshHandler"
  using movement_keeps_other_half [where h = "exampleHandler\<lparr>player := Some (examplePlayer\<lparr>yaw := Num 64, pitch := Num 8\<rparr>)\<rparr>"
      and E = exampleEnv and x = "Num 1" and y = "Num 2" and z = "Num 3" and yw = "Num 90" and pt = "Num 45"]
    movement_keeps_other_half [where h = exampleHandler and E = exampleEnv and x = "Num 1" and y = "Num 2"
      and z = "Num 3" and yw = "Num 90" and pt = "Num 45"]
    movement_keeps_other_half [where h = freshHandler and E = exampleEnv and x = "Num 1" and y = "Num 2"
      and z = "Num 3" and yw = "Num 90" and pt = "Num 45"]
  by (simp add: exampleHandler_def freshHandler_def examplePlayer_def split: Action.splits)

end
